theory Spec2Isabelle
  imports Main "HOL-Library.Word"
begin

section \<open>Go library functions used by the plugin\<close>

text \<open>
  Go strings are byte sequences; they are modelled as \<open>string\<close> (a list of characters).
  The functions of package \<open>strings\<close> that the plugin calls are written out the way the
  Go library defines them.
\<close>

definition HasSuffix :: "string \<Rightarrow> string \<Rightarrow> bool" where
  "HasSuffix s suffix =
     (length s \<ge> length suffix \<and> drop (length s - length suffix) s = suffix)"

definition HasPrefix :: "string \<Rightarrow> string \<Rightarrow> bool" where
  "HasPrefix s prefix = (length s \<ge> length prefix \<and> take (length prefix) s = prefix)"

primrec Contains :: "string \<Rightarrow> string \<Rightarrow> bool" where
  "Contains [] substr = (substr = [])"
| "Contains (c # cs) substr = (HasPrefix (c # cs) substr \<or> Contains cs substr)"

fun Join :: "string list \<Rightarrow> string \<Rightarrow> string" where
  "Join [] sep = []"
| "Join [a] sep = a"
| "Join (a # b # rest) sep = a @ sep @ Join (b # rest) sep"

text \<open>
  \<open>strconv.Atoi\<close> on a platform whose \<open>int\<close> has 64 bits: an optional sign, then at
  least one decimal digit and nothing else; the digits are read left to right into an
  unsigned 64-bit accumulator, and the signed result must fit \<open>int\<close>.
\<close>

type_synonym go_int = "64 word"

datatype strconv_err = ErrSyntax | ErrRange

datatype NumError = NumError (Func: string) (Num: string) (Err: strconv_err)

definition isDigit :: "char \<Rightarrow> bool" where
  "isDigit c = (c \<in> set ''0123456789'')"

definition digitVal :: "char \<Rightarrow> nat" where
  "digitVal c = of_char c - 48"

fun parseDigits :: "nat \<Rightarrow> string \<Rightarrow> strconv_err + nat" where
  "parseDigits n [] = Inr n"
| "parseDigits n (c # cs) =
     (if \<not> isDigit c then Inl ErrSyntax
      else if 10 * n + digitVal c > 18446744073709551615 then Inl ErrRange
      else parseDigits (10 * n + digitVal c) cs)"

definition Atoi :: "string \<Rightarrow> NumError + go_int" where
  "Atoi s =
     (let neg = (s \<noteq> [] \<and> hd s = CHR ''-'');
          ds = (if s \<noteq> [] \<and> (hd s = CHR ''+'' \<or> hd s = CHR ''-'') then tl s else s)
      in if ds = [] then Inl (NumError ''Atoi'' s ErrSyntax)
         else case parseDigits 0 ds of
                Inl e \<Rightarrow> Inl (NumError ''Atoi'' s e)
              | Inr un \<Rightarrow>
                  if \<not> neg \<and> un \<ge> 9223372036854775808 then Inl (NumError ''Atoi'' s ErrRange)
                  else if neg \<and> un > 9223372036854775808 then Inl (NumError ''Atoi'' s ErrRange)
                  else Inr (if neg then - word_of_nat un else word_of_nat un))"

text \<open>
  Package \<open>time\<close>. A \<open>time.Duration\<close> is an \<open>int64\<close> count of nanoseconds, and its
  arithmetic wraps. A \<open>time.Time\<close> is kept as the number of nanoseconds since the Unix
  epoch, as a mathematical integer. \<open>Add\<close> moves it by the signed value of the duration:
  the library splits the duration into seconds and nanoseconds with truncating division
  and then brings the nanosecond part of the sum back between 0 and 999999999, which gives
  the exact sum. \<open>Unix\<close> is the seconds part of that representation, so it is the number
  of whole seconds rounded down, also before 1970.
\<close>

type_synonym Duration = "64 word"
type_synonym Time = int

definition Second :: Duration where
  "Second = 1000000000"

definition Time_Add :: "Time \<Rightarrow> Duration \<Rightarrow> Time" where
  "Time_Add t d = t + sint d"

definition Time_Unix :: "Time \<Rightarrow> int" where
  "Time_Unix t = t div 1000000000"

section \<open>Data model\<close>

text \<open>
  A call that dereferences a nil pointer panics; a function that can panic returns an
  \<open>outcome\<close>. An \<open>error\<close> is its message (\<open>err.Error()\<close>); a result \<open>(value, error)\<close> is
  a sum whose left side is the error.
\<close>

datatype 'a outcome = Panic | Done 'a

text \<open>What a function returned, if it returned.\<close>

definition returned :: "'a outcome \<Rightarrow> 'a option" where
  "returned x = (case x of Panic \<Rightarrow> None | Done v \<Rightarrow> Some v)"

datatype URL = URL string

subsection \<open>SAML library types (the fields the plugin reads or writes)\<close>

datatype AttributeValue = AttributeValue (Value: string)

record Attribute =
  attr_Name :: string
  Values :: "AttributeValue list"

record AttributeStatement =
  Attributes :: "Attribute list"

record Assertion =
  AttributeStatements :: "AttributeStatement list"

record xml_Name =
  Space :: string
  Local :: string

record KeyInfo =
  XMLName :: xml_Name
  Certificate :: string

record KeyDescriptor =
  Use :: string
  KeyInfo :: KeyInfo

record IDPSSODescriptor =
  KeyDescriptors :: "KeyDescriptor list"

record EntityDescriptor =
  IDPSSODescriptors :: "IDPSSODescriptor list"

text \<open>
  \<open>IDPMetadata\<close> is a pointer: every binding built from the same options refers to the
  same \<open>EntityDescriptor\<close> object, which lives in a store (a list of objects; an
  address is an index, and a new object is put at the end).
\<close>

type_synonym addr = nat
type_synonym store = "EntityDescriptor list"

definition store_alloc :: "store \<Rightarrow> EntityDescriptor \<Rightarrow> addr \<times> store" where
  "store_alloc h d = (length h, h @ [d])"

definition store_get :: "store \<Rightarrow> addr \<Rightarrow> EntityDescriptor option" where
  "store_get h p = (if p < length h then Some (h ! p) else None)"

record ServiceProvider =
  MetadataURL :: URL
  AcsURL :: URL
  IDPMetadata :: "addr option"
  AllowIDPInitiated :: bool

record Options =
  opt_URL :: URL
  opt_IDPMetadata :: "addr option"

subsection \<open>Types of the plugin\<close>

record TokenParameters =
  TokenName :: string
  TokenSecret :: string
  TokenIssuer :: string

record CommonParameters =
  AuthURLPath :: string
  SuccessURLPath :: string
  Jwt :: TokenParameters

text \<open>\<open>AzureIdp\<close> embeds \<open>CommonParameters\<close>; the logger is left out.\<close>

record AzureIdp = CommonParameters +
  Enabled :: bool
  ServiceProviders :: "ServiceProvider list"
  IdpMetadataLocation :: string
  IdpMetadataURL :: "URL option"
  IdpSignCertLocation :: string
  TenantID :: string
  ApplicationID :: string
  ApplicationName :: string
  LoginURL :: string
  EntityID :: string
  AssertionConsumerServiceURLs :: "string list"

text \<open>
  Modelled from the spec: the declaration of \<open>UserClaims\<close> is not among the source files.
  The record has the fields that \<open>Authenticate\<close> assigns (the spec's ClaimsRecord: subject,
  display name, email, origin, roles, token issuer, expiry); its zero value is empty.
\<close>

record UserClaims =
  ExpiresAt :: int
  Issuer :: string
  Subject :: string
  Name :: string
  Email :: string
  Roles :: "string list"
  Origin :: string

definition UserClaims_zero :: UserClaims where
  "UserClaims_zero =
     \<lparr>ExpiresAt = 0, Issuer = [], Subject = [], Name = [], Email = [], Roles = [], Origin = []\<rparr>"

record User =
  ID :: string
  Metadata :: "string \<rightharpoonup> string"

definition User_zero :: User where
  "User_zero = \<lparr>ID = [], Metadata = Map.empty\<rparr>"

text \<open>
  An \<open>http.Request\<close>: the method, the headers (first value of each), and the parsed form
  (first value of each field, from the URL query and the body). \<open>Header.Get\<close> and
  \<open>FormValue\<close> return the empty string for a name that is absent.
\<close>

record Request =
  Method :: string
  Header :: "string \<rightharpoonup> string"
  Form :: "string \<rightharpoonup> string"

definition Header_Get :: "Request \<Rightarrow> string \<Rightarrow> string" where
  "Header_Get r key = (case Header r key of None \<Rightarrow> [] | Some v \<Rightarrow> v)"

definition FormValue :: "Request \<Rightarrow> string \<Rightarrow> string" where
  "FormValue r key = (case Form r key of None \<Rightarrow> [] | Some v \<Rightarrow> v)"

subsection \<open>The libraries and the environment the plugin calls\<close>

datatype Template = Tmpl string

record userInterfaceLink =
  Link :: string
  link_Title :: string
  Style :: string

record userInterfaceArgs =
  arg_Title :: string
  arg_LogoURL :: string
  arg_LogoDescription :: string
  arg_AuthEndpoint :: string
  Message :: string
  MessageType :: string
  arg_Links :: "userInterfaceLink list"
  arg_LocalAuthEnabled :: bool
  Authenticated :: bool

text \<open>
  What the plugin calls and does not define is a parameter: the clock (\<open>now i\<close> is the
  value of the \<open>i\<close>-th call of \<open>time.Now()\<close>), base64 decoding, the SAML library's
  \<open>ParseXMLResponse\<close> and \<open>DefaultServiceProvider\<close>, the JWT library's HS512
  \<open>SignedString\<close> (claims and key), the \<open>%v\<close> rendering of the claims, the process
  environment, URL parsing, metadata fetching and parsing, file reading, the helpers
  \<open>readCertFile\<close> and \<open>readFile\<close> and the constant \<open>defaultUserInterface\<close> (declared
  in files that are not among the sources), and the template engine.
\<close>

record lib =
  now :: "nat \<Rightarrow> Time"
  DecodeString :: "string \<Rightarrow> string + string"
  ParseXMLResponse :: "ServiceProvider \<Rightarrow> string \<Rightarrow> string list \<Rightarrow> string + Assertion"
  SignedString :: "UserClaims \<Rightarrow> string \<Rightarrow> string + string"
  sprint_claims :: "UserClaims \<Rightarrow> string"
  Getenv :: "string \<Rightarrow> string"
  url_Parse :: "string \<Rightarrow> string + URL"
  FetchMetadata :: "URL \<Rightarrow> string + EntityDescriptor"
  ReadFile :: "string \<Rightarrow> string + string"
  ParseMetadata :: "string \<Rightarrow> string + EntityDescriptor"
  DefaultServiceProvider :: "Options \<Rightarrow> ServiceProvider"
  readCertFile :: "string \<Rightarrow> string + string"
  readFile :: "string \<Rightarrow> string + string"
  defaultUserInterface :: string
  template_Parse :: "string \<Rightarrow> string + Template"
  template_Execute :: "Template \<Rightarrow> userInterfaceArgs \<Rightarrow> string + string"

text \<open>
  The effects of one request on the world outside the returned values: how many times the
  clock was read, the bindings whose \<open>ParseXMLResponse\<close> was called (in call order), and
  the entries written to the error log.
\<close>

datatype log_entry = LogError string NumError

record effects =
  clock_reads :: nat
  parse_calls :: "ServiceProvider list"
  logged :: "log_entry list"

section \<open>AzureIdp.Authenticate\<close>

text \<open>The body of the loop over the attributes of one attribute statement.\<close>

definition Authenticate_attrEntry ::
  "lib \<Rightarrow> UserClaims \<times> effects \<Rightarrow> Attribute \<Rightarrow> UserClaims \<times> effects" where
  "Authenticate_attrEntry L st attrEntry =
     (let claims = fst st; fx = snd st in
      if length (Values attrEntry) = 0 then (claims, fx)
      else if HasSuffix (attr_Name attrEntry) ''Attributes/MaxSessionDuration'' then
        (case Atoi (Value (Values attrEntry ! 0)) of
           Inl err \<Rightarrow>
             (claims,
              fx\<lparr>logged := logged fx @ [LogError ''Failed parsing Attributes/MaxSessionDuration'' err]\<rparr>)
         | Inr multiplier \<Rightarrow>
             (claims\<lparr>ExpiresAt :=
                 Time_Unix (Time_Add (now L (clock_reads fx)) (multiplier * Second))\<rparr>,
              fx\<lparr>clock_reads := Suc (clock_reads fx)\<rparr>))
      else if HasSuffix (attr_Name attrEntry) ''identity/claims/displayname'' then
        (claims\<lparr>Name := Value (Values attrEntry ! 0)\<rparr>, fx)
      else if HasSuffix (attr_Name attrEntry) ''identity/claims/emailaddress'' then
        (claims\<lparr>Email := Value (Values attrEntry ! 0)\<rparr>, fx)
      else if HasSuffix (attr_Name attrEntry) ''identity/claims/identityprovider'' then
        (claims\<lparr>Origin := Value (Values attrEntry ! 0)\<rparr>, fx)
      else if HasSuffix (attr_Name attrEntry) ''identity/claims/name'' then
        (claims\<lparr>Subject := Value (Values attrEntry ! 0)\<rparr>, fx)
      else if HasSuffix (attr_Name attrEntry) ''Attributes/Role'' then
        (foldl (\<lambda>c attrEntryElement. c\<lparr>Roles := Roles c @ [Value attrEntryElement]\<rparr>)
           claims (Values attrEntry), fx)
      else (claims, fx))"

text \<open>The two nested loops: every attribute of every attribute statement, in order.\<close>

definition Authenticate_attributes ::
  "lib \<Rightarrow> Assertion \<Rightarrow> UserClaims \<times> effects \<Rightarrow> UserClaims \<times> effects" where
  "Authenticate_attributes L samlAssertions st =
     foldl (\<lambda>st attrStatement. foldl (Authenticate_attrEntry L) st (Attributes attrStatement))
       st (AttributeStatements samlAssertions)"

text \<open>
  An attribute that sets the expiry: a MaxSessionDuration with at least one value, the
  first of which \<open>Atoi\<close> reads. (Used to state properties of the scan.)
\<close>

definition readsDuration :: "Attribute \<Rightarrow> bool" where
  "readsDuration attr =
     (HasSuffix (attr_Name attr) ''Attributes/MaxSessionDuration'' \<and> Values attr \<noteq> []
        \<and> \<not> isl (Atoi (Value (Values attr ! 0))))"

text \<open>The claims as first built: the zero value with the expiry 900 seconds from now.\<close>

definition Authenticate_newClaims :: "lib \<Rightarrow> effects \<Rightarrow> UserClaims \<times> effects" where
  "Authenticate_newClaims L fx =
     (UserClaims_zero\<lparr>ExpiresAt := Time_Unix (Time_Add (now L (clock_reads fx)) (900 * Second))\<rparr>,
      fx\<lparr>clock_reads := Suc (clock_reads fx)\<rparr>)"

text \<open>
  The rest of the loop body of \<open>Authenticate\<close>, after \<open>ParseXMLResponse\<close> has returned an
  assertion: every path through it returns from \<open>Authenticate\<close>.
\<close>

definition Authenticate_assertion ::
  "lib \<Rightarrow> AzureIdp \<Rightarrow> Assertion \<Rightarrow> effects \<Rightarrow> (string + User \<times> string) \<times> effects" where
  "Authenticate_assertion L az samlAssertions fx0 =
     (let st = Authenticate_attributes L samlAssertions (Authenticate_newClaims L fx0);
          claims = fst st; fx = snd st in
      if Email claims = [] \<or> Name claims = [] then
        (Inl (''The Azure AD authorization failed, mandatory attributes not found: ''
                @ sprint_claims L claims), fx)
      else
        let claims = (if TokenIssuer (Jwt az) \<noteq> []
                      then claims\<lparr>Issuer := TokenIssuer (Jwt az)\<rparr> else claims);
            user = \<lparr>ID = Email claims,
                    Metadata = [''name'' \<mapsto> Name claims, ''email'' \<mapsto> Email claims,
                                ''roles'' \<mapsto> Join (Roles claims) '' '']\<rparr>
        in case SignedString L claims (TokenSecret (Jwt az)) of
             Inl err \<Rightarrow>
               (Inl (''Failed to issue JWT token with '' @ sprint_claims L claims
                       @ '' claims: '' @ err), fx)
           | Inr validToken \<Rightarrow> (Inr (user, validToken), fx))"

text \<open>The loop over the service providers, with the errors collected so far.\<close>

fun Authenticate_serviceProviders ::
  "lib \<Rightarrow> AzureIdp \<Rightarrow> string \<Rightarrow> ServiceProvider list \<Rightarrow> string list \<Rightarrow> effects
     \<Rightarrow> (string + User \<times> string) \<times> effects" where
  "Authenticate_serviceProviders L az samlpRespRaw [] spErrors fx =
     (Inl (''The Azure AD validation failures: '' @ Join spErrors '', ''), fx)"
| "Authenticate_serviceProviders L az samlpRespRaw (sp # sps) spErrors fx =
     (let fx1 = fx\<lparr>parse_calls := parse_calls fx @ [sp]\<rparr> in
      case ParseXMLResponse L sp samlpRespRaw [[]] of
        Inl err \<Rightarrow> Authenticate_serviceProviders L az samlpRespRaw sps (spErrors @ [err]) fx1
      | Inr samlAssertions \<Rightarrow> Authenticate_assertion L az samlAssertions fx1)"

text \<open>
  \<open>Authenticate\<close> has a pointer receiver; the receiver is first dereferenced at
  \<open>az.ServiceProviders\<close>, after the three checks of the request.
\<close>

definition AzureIdp_Authenticate ::
  "lib \<Rightarrow> AzureIdp option \<Rightarrow> Request \<Rightarrow> effects
     \<Rightarrow> (string + User \<times> string) outcome \<times> effects" where
  "AzureIdp_Authenticate L azp r fx =
     (if Header_Get r ''Content-Type'' \<noteq> ''application/x-www-form-urlencoded'' then
        (Done (Inl ''The Azure AD authorization POST request is not application/x-www-form-urlencoded''), fx)
      else if FormValue r ''SAMLResponse'' = [] then
        (Done (Inl ''The Azure AD authorization POST request has no SAMLResponse''), fx)
      else case DecodeString L (FormValue r ''SAMLResponse'') of
        Inl err \<Rightarrow>
          (Done (Inl (''The Azure AD authorization POST request with SAMLResponse failed base64 decoding: ''
                       @ err)), fx)
      | Inr samlpRespRaw \<Rightarrow>
          (case azp of
             None \<Rightarrow> (Panic, fx)
           | Some az \<Rightarrow>
               (let res = Authenticate_serviceProviders L az samlpRespRaw (ServiceProviders az) [] fx
                in (Done (fst res), snd res))))"

section \<open>The user interface\<close>

record UserInterface =
  TemplateLocation :: string
  AllowRoleSelection :: bool
  Template :: "Template option"
  Title :: string
  LogoURL :: string
  LogoDescription :: string
  Links :: "userInterfaceLink list"
  AuthEndpoint :: string
  LocalAuthEnabled :: bool

definition UserInterface_zero :: UserInterface where
  "UserInterface_zero =
     \<lparr>TemplateLocation = [], AllowRoleSelection = False, Template = None, Title = [],
      LogoURL = [], LogoDescription = [], Links = [], AuthEndpoint = [],
      LocalAuthEnabled = False\<rparr>"

definition newUserInterfaceArgs :: "UserInterface \<Rightarrow> userInterfaceArgs" where
  "newUserInterfaceArgs ui =
     \<lparr>arg_Title = Title ui, arg_LogoURL = LogoURL ui, arg_LogoDescription = LogoDescription ui,
      arg_AuthEndpoint = AuthEndpoint ui, Message = [], MessageType = [],
      arg_Links = Links ui, arg_LocalAuthEnabled = LocalAuthEnabled ui, Authenticated = False\<rparr>"

definition loadTemplates :: "lib \<Rightarrow> UserInterface \<Rightarrow> string option \<times> UserInterface" where
  "loadTemplates L ui =
     (case (if TemplateLocation ui \<noteq> [] then readFile L (TemplateLocation ui)
            else Inr (defaultUserInterface L)) of
        Inl err \<Rightarrow> (Some err, ui)
      | Inr templateBody \<Rightarrow>
          (case template_Parse L templateBody of
             Inl err \<Rightarrow> (Some err, ui)
           | Inr t \<Rightarrow> (None, ui\<lparr>Template := Some t\<rparr>)))"

definition UserInterface_validate :: "lib \<Rightarrow> UserInterface \<Rightarrow> string option \<times> UserInterface" where
  "UserInterface_validate L ui =
     (case loadTemplates L ui of
        (Some err, ui1) \<Rightarrow> (Some err, ui1)
      | (None, ui1) \<Rightarrow> (None, if Title ui1 = [] then ui1\<lparr>Title := ''Sign In''\<rparr> else ui1))"

text \<open>
  An \<open>http.ResponseWriter\<close>: its header map and the calls of \<open>WriteHeader\<close> and \<open>Write\<close>
  made on it, in order.
\<close>

datatype rw_call = WriteHeader nat | Write string

record ResponseWriter =
  rw_Header :: "string \<rightharpoonup> string"
  rw_calls :: "rw_call list"

text \<open>Executing a nil template panics.\<close>

definition render ::
  "lib \<Rightarrow> UserInterface \<Rightarrow> ResponseWriter \<Rightarrow> userInterfaceArgs
     \<Rightarrow> (string option \<times> ResponseWriter) outcome" where
  "render L ui w args =
     (case Template ui of
        None \<Rightarrow> Panic
      | Some t \<Rightarrow>
          (case template_Execute L t args of
             Inl err \<Rightarrow>
               Done (Some err,
                     w\<lparr>rw_calls := rw_calls w @ [WriteHeader 500, Write ''Internal Server Error'']\<rparr>)
           | Inr b \<Rightarrow>
               Done (None,
                     w\<lparr>rw_Header := (rw_Header w)
                          (''Cache-Control'' \<mapsto> ''no-cache, no-store, must-revalidate'',
                           ''Content-Type'' \<mapsto> ''text/html''),
                       rw_calls := rw_calls w @ [Write b]\<rparr>)))"

section \<open>AzureIdp.Validate\<close>

definition URL_zero :: URL where
  "URL_zero = URL []"

text \<open>
  The body of the loop over the ACS URLs. The results of the two \<open>url.Parse\<close> calls are
  dereferenced without a look at their errors, and \<open>url.Parse\<close> returns nil with an error.
  The key descriptor is appended to the first SSO descriptor of the metadata object that
  the binding points to.
\<close>

definition Validate_acsURL ::
  "lib \<Rightarrow> Options \<Rightarrow> string \<Rightarrow> (AzureIdp \<times> store) outcome \<Rightarrow> string
     \<Rightarrow> (AzureIdp \<times> store) outcome" where
  "Validate_acsURL L azureOptions idpSignCert st acsURL =
     (case st of
        Panic \<Rightarrow> Panic
      | Done (az, h) \<Rightarrow>
          (let sp = (DefaultServiceProvider L azureOptions)\<lparr>AllowIDPInitiated := True\<rparr> in
           case url_Parse L acsURL of
             Inl _ \<Rightarrow> Panic
           | Inr cfgAcsURL \<Rightarrow>
               (let sp = sp\<lparr>AcsURL := cfgAcsURL\<rparr> in
                case url_Parse L (EntityID az) of
                  Inl _ \<Rightarrow> Panic
                | Inr entityID \<Rightarrow>
                    (let sp = sp\<lparr>MetadataURL := entityID\<rparr>;
                         sp = (case IdpMetadataURL az of
                                 Some u \<Rightarrow> sp\<lparr>MetadataURL := u\<rparr>
                               | None \<Rightarrow> sp)
                     in case IDPMetadata sp of
                          None \<Rightarrow> Panic
                        | Some p \<Rightarrow>
                            (case store_get h p of
                               None \<Rightarrow> Panic
                             | Some md \<Rightarrow>
                                 (let keyDescriptor =
                                        \<lparr>Use = ''signing'',
                                         KeyInfo = \<lparr>XMLName = \<lparr>Space = ''http://www.w3.org/2000/09/xmldsig#'',
                                                               Local = ''KeyInfo''\<rparr>,
                                                    Certificate = idpSignCert\<rparr>\<rparr>;
                                      h1 = (case IDPSSODescriptors md of
                                              [] \<Rightarrow> h
                                            | d # ds \<Rightarrow>
                                                h[p := md\<lparr>IDPSSODescriptors :=
                                                     d\<lparr>KeyDescriptors := KeyDescriptors d @ [keyDescriptor]\<rparr> # ds\<rparr>])
                                  in Done (az\<lparr>ServiceProviders := ServiceProviders az @ [sp]\<rparr>, h1)))))))"

text \<open>
  The block of \<open>Validate\<close> that fills \<open>azureOptions\<close>: from a location that starts
  with \<open>http\<close> the metadata is fetched, and the parsed location is kept in
  \<open>IdpMetadataURL\<close>; any other location is read as a file. The metadata object is new
  in the store. An error is returned with the receiver as it is then.
\<close>

definition Validate_azureOptions ::
  "lib \<Rightarrow> store \<Rightarrow> AzureIdp \<Rightarrow> (string \<times> AzureIdp) + (AzureIdp \<times> store \<times> Options)" where
  "Validate_azureOptions L h az =
     (if HasPrefix (IdpMetadataLocation az) ''http'' then
        (case url_Parse L (IdpMetadataLocation az) of
           Inl err \<Rightarrow> Inl (err, az)
         | Inr idpMetadataURL \<Rightarrow>
             (case FetchMetadata L idpMetadataURL of
                Inl err \<Rightarrow> Inl (err, az\<lparr>IdpMetadataURL := Some idpMetadataURL\<rparr>)
              | Inr idpMetadata \<Rightarrow>
                  Inr (az\<lparr>IdpMetadataURL := Some idpMetadataURL\<rparr>,
                       snd (store_alloc h idpMetadata),
                       \<lparr>opt_URL = idpMetadataURL,
                        opt_IDPMetadata = Some (fst (store_alloc h idpMetadata))\<rparr>)))
      else
        (case ReadFile L (IdpMetadataLocation az) of
           Inl err \<Rightarrow> Inl (err, az)
         | Inr metadataFileContent \<Rightarrow>
             (case ParseMetadata L metadataFileContent of
                Inl err \<Rightarrow> Inl (err, az)
              | Inr idpMetadata \<Rightarrow>
                  Inr (az, snd (store_alloc h idpMetadata),
                       \<lparr>opt_URL = URL_zero,
                        opt_IDPMetadata = Some (fst (store_alloc h idpMetadata))\<rparr>))))"

text \<open>
  \<open>Validate\<close> changes its receiver in place and returns an error or nil: the model returns
  the error (if any) with the receiver and the store as they are at the return.
\<close>

definition AzureIdp_Validate ::
  "lib \<Rightarrow> store \<Rightarrow> AzureIdp \<Rightarrow> (string option \<times> AzureIdp \<times> store) outcome" where
  "AzureIdp_Validate L h az0 =
     (if length (AssertionConsumerServiceURLs az0) = 0 then Done (Some ''ACS URLs are missing'', az0, h)
      else if TenantID az0 = [] then Done (Some ''Azure AD Tenant ID not found'', az0, h)
      else if ApplicationID az0 = [] then Done (Some ''Azure AD Application ID not found'', az0, h)
      else if ApplicationName az0 = [] then Done (Some ''Azure AD Application Name not found'', az0, h)
      else
        let az1 = (if IdpMetadataLocation az0 = [] then
                     az0\<lparr>IdpMetadataLocation :=
                         ''https://login.microsoftonline.com/'' @ TenantID az0
                           @ ''/federationmetadata/2007-06/federationmetadata.xml''\<rparr>
                   else az0)
        in
        if IdpSignCertLocation az1 = [] then
          Done (Some ''Azure AD IdP Signing Certificate not found'', az1, h)
        else case readCertFile L (IdpSignCertLocation az1) of
          Inl err \<Rightarrow> Done (Some err, az1, h)
        | Inr idpSignCert \<Rightarrow>
            (let az2 = az1\<lparr>LoginURL :=
                          ''https://account.activedirectory.windowsazure.com/applications/signin/''
                            @ ApplicationName az1 @ ''/'' @ ApplicationID az1
                            @ ''?tenantId='' @ TenantID az1\<rparr>
             in
             case Validate_azureOptions L h az2 of
               Inl (err, az3) \<Rightarrow> Done (Some err, az3, h)
             | Inr (az3, h1, azureOptions) \<Rightarrow>
                 (case foldl (Validate_acsURL L azureOptions idpSignCert) (Done (az3, h1))
                         (AssertionConsumerServiceURLs az3) of
                    Panic \<Rightarrow> Panic
                  | Done (az4, h2) \<Rightarrow> Done (None, az4, h2))))"

section \<open>The plugin: AuthProvider\<close>

text \<open>\<open>AuthProvider\<close> embeds \<open>CommonParameters\<close>; the logger is left out.\<close>

record AuthProvider = CommonParameters +
  provider_Name :: string
  Azure :: "AzureIdp option"
  UI :: "UserInterface option"
  idpProviderCount :: "64 word"

definition AuthProvider_Validate ::
  "lib \<Rightarrow> store \<Rightarrow> AuthProvider \<Rightarrow> (string option \<times> AuthProvider \<times> store) outcome" where
  "AuthProvider_Validate L h m0 =
     (let m1 = m0\<lparr>idpProviderCount := 0\<rparr> in
      if AuthURLPath m1 = [] then
        Done (Some (provider_Name m1
                @ '': authentication endpoint cannot be empty, try setting auth_url_path to /saml''),
              m1, h)
      else
        let m2 = (if TokenName (Jwt m1) = [] then m1\<lparr>Jwt := (Jwt m1)\<lparr>TokenName := ''JWT_TOKEN''\<rparr>\<rparr>
                  else m1)
        in
        if TokenSecret (Jwt m2) = [] \<and> Getenv L ''JWT_TOKEN_SECRET'' = [] then
          Done (Some (provider_Name m2
                  @ '': jwt_token_secret must be defined either ''
                  @ ''via JWT_TOKEN_SECRET environment variable or ''
                  @ ''via jwt.token_secret configuration element''),
                m2, h)
        else
          let m3 = (if TokenIssuer (Jwt m2) = [] then m2\<lparr>Jwt := (Jwt m2)\<lparr>TokenIssuer := ''localhost''\<rparr>\<rparr>
                    else m2)
          in
          case (case Azure m3 of
                  None \<Rightarrow> Done (None, m3, h)
                | Some az \<Rightarrow>
                    (case AzureIdp_Validate L h (az\<lparr>Jwt := Jwt m3\<rparr>) of
                       Panic \<Rightarrow> Panic
                     | Done (Some err, az1, h1) \<Rightarrow>
                         Done (Some (provider_Name m3 @ '': '' @ err), m3\<lparr>Azure := Some az1\<rparr>, h1)
                     | Done (None, az1, h1) \<Rightarrow>
                         Done (None,
                               m3\<lparr>Azure := Some az1, idpProviderCount := idpProviderCount m3 + 1\<rparr>,
                               h1)))
          of
            Panic \<Rightarrow> Panic
          | Done (Some err, m4, h1) \<Rightarrow> Done (Some err, m4, h1)
          | Done (None, m4, h1) \<Rightarrow>
              if idpProviderCount m4 = 0 then
                Done (Some (provider_Name m4 @ '': no valid IdP configuration found''), m4, h1)
              else
                (case UserInterface_validate L (case UI m4 of None \<Rightarrow> UserInterface_zero | Some ui \<Rightarrow> ui) of
                   (Some err, ui1) \<Rightarrow>
                     Done (Some (provider_Name m4 @ '': UI settings validation error: '' @ err),
                           m4\<lparr>UI := Some ui1\<rparr>, h1)
                 | (None, ui1) \<Rightarrow>
                     (let ui2 = ui1\<lparr>AuthEndpoint := AuthURLPath m4\<rparr>;
                          ui3 = (case Azure m4 of
                                   None \<Rightarrow> ui2
                                 | Some az \<Rightarrow>
                                     ui2\<lparr>Links := Links ui2
                                          @ [\<lparr>Link = LoginURL az, link_Title = ''Office 365'',
                                              Style = ''fa-windows''\<rparr>]\<rparr>)
                      in Done (None, m4\<lparr>UI := Some ui3\<rparr>, h1))))"

definition failAzureAuthentication ::
  "AuthProvider \<Rightarrow> ResponseWriter \<Rightarrow> string option
     \<Rightarrow> (User \<times> bool \<times> string option) \<times> ResponseWriter" where
  "failAzureAuthentication m w err =
     ((User_zero, False, err), w\<lparr>rw_Header := (rw_Header w)(''WWW-Authenticate'' \<mapsto> ''Bearer'')\<rparr>)"

text \<open>
  The end of \<open>AuthProvider.Authenticate\<close>, from the comment \<open>Render UI\<close> on, with the
  values of the local variables at that point.
\<close>

definition Authenticate_renderUI ::
  "lib \<Rightarrow> AuthProvider \<Rightarrow> UserInterface \<Rightarrow> ResponseWriter \<Rightarrow> userInterfaceArgs
     \<Rightarrow> User option \<Rightarrow> string \<Rightarrow> bool
     \<Rightarrow> ((User \<times> bool \<times> string option) \<times> ResponseWriter) outcome" where
  "Authenticate_renderUI L m ui w uiArgs userIdentity userToken userAuthenticated =
     (case render L ui w uiArgs of
        Panic \<Rightarrow> Panic
      | Done (uiErr, w1) \<Rightarrow>
          if \<not> userAuthenticated then Done (failAzureAuthentication m w1 None)
          else (case userIdentity of
                  None \<Rightarrow> Panic
                | Some u \<Rightarrow>
                    Done ((u, True, None),
                          w1\<lparr>rw_Header := (rw_Header w1)(''Authorization'' \<mapsto> ''Bearer '' @ userToken)\<rparr>)))"

definition AuthProvider_Authenticate ::
  "lib \<Rightarrow> AuthProvider \<Rightarrow> ResponseWriter \<Rightarrow> Request \<Rightarrow> effects
     \<Rightarrow> ((User \<times> bool \<times> string option) \<times> ResponseWriter) outcome \<times> effects" where
  "AuthProvider_Authenticate L m w r fx =
     (case UI m of
        None \<Rightarrow> (Panic, fx)
      | Some ui \<Rightarrow>
          (let uiArgs = newUserInterfaceArgs ui in
           if Method r = ''POST''
              \<and> (Contains (Header_Get r ''Origin'') ''login.microsoftonline.com''
                 \<or> Contains (Header_Get r ''Referer'') ''windowsazure.com'')
           then
             (case AzureIdp_Authenticate L (Azure m) r fx of
                (Panic, fx1) \<Rightarrow> (Panic, fx1)
              | (Done (Inl err), fx1) \<Rightarrow>
                  (Authenticate_renderUI L m ui w (uiArgs\<lparr>Message := err\<rparr>) None [] False, fx1)
              | (Done (Inr (userIdentity, userToken)), fx1) \<Rightarrow>
                  (Authenticate_renderUI L m ui w (uiArgs\<lparr>Authenticated := True\<rparr>)
                     (Some userIdentity) userToken True, fx1))
           else (Authenticate_renderUI L m ui w uiArgs None [] False, fx)))"

section \<open>An example deployment\<close>

text \<open>
  A concrete environment, configuration and requests, on which the theorems below are
  instantiated. The library functions are small stand-ins: the decoder knows two payloads,
  the SAML library accepts the first of them at the ACS URL
  \<open>https://app.example.com/saml\<close> only, the clock starts at 1600000000 seconds, and the
  signer, like HMAC, accepts a key of any length. The environment has
  \<open>JWT_TOKEN_SECRET\<close> set; the configuration \<open>m0\<close> has no token secret.
\<close>

definition assertion0 :: Assertion where
  "assertion0 =
     \<lparr>AttributeStatements =
        [\<lparr>Attributes =
           [\<lparr>attr_Name = ''http://schemas.microsoft.com/identity/claims/displayname'',
             Values = [AttributeValue ''John Doe'']\<rparr>,
            \<lparr>attr_Name = ''http://schemas.xmlsoap.org/ws/2005/05/identity/claims/emailaddress'',
             Values = [AttributeValue ''jdoe@example.com'']\<rparr>,
            \<lparr>attr_Name = ''http://schemas.xmlsoap.org/ws/2005/05/identity/claims/name'',
             Values = [AttributeValue ''jdoe'']\<rparr>,
            \<lparr>attr_Name = ''http://claims.example.com/SAML/Attributes/Role'',
             Values = [AttributeValue ''admin'', AttributeValue ''user'']\<rparr>,
            \<lparr>attr_Name = ''http://claims.example.com/SAML/Attributes/MaxSessionDuration'',
             Values = [AttributeValue ''3600'']\<rparr>]\<rparr>]\<rparr>"

definition lib0 :: lib where
  "lib0 =
     \<lparr>now = (\<lambda>i. 1600000000000000000 + int i),
      DecodeString = (\<lambda>s. if s = ''PFJlc3BvbnNlLz4='' then Inr ''<Response/>''
                           else if s = ''PGZvcmdlZC8+'' then Inr ''<forged/>''
                           else Inl ''illegal base64 data at input byte 0''),
      ParseXMLResponse = (\<lambda>sp raw ids.
         if raw = ''<Response/>'' \<and> AcsURL sp = URL ''https://app.example.com/saml''
         then Inr assertion0
         else Inl (''cannot validate response for '' @ (case AcsURL sp of URL u \<Rightarrow> u))),
      SignedString = (\<lambda>claims key. Inr (''hs512:'' @ key @ '':'' @ Email claims)),
      sprint_claims = (\<lambda>claims. ''{'' @ Name claims @ '' '' @ Email claims @ ''}''),
      Getenv = (\<lambda>key. if key = ''JWT_TOKEN_SECRET'' then ''s3cret'' else []),
      url_Parse = (\<lambda>s. Inr (URL s)),
      FetchMetadata = (\<lambda>u. Inr \<lparr>IDPSSODescriptors = [\<lparr>KeyDescriptors = []\<rparr>]\<rparr>),
      ReadFile = (\<lambda>p. if p = ''/etc/caddy/metadata.xml'' then Inr ''<EntityDescriptor/>''
                       else Inl ''no such file or directory''),
      ParseMetadata = (\<lambda>s. Inr \<lparr>IDPSSODescriptors = [\<lparr>KeyDescriptors = []\<rparr>]\<rparr>),
      DefaultServiceProvider = (\<lambda>opts.
         \<lparr>MetadataURL = opt_URL opts, AcsURL = opt_URL opts,
          IDPMetadata = opt_IDPMetadata opts, AllowIDPInitiated = False\<rparr>),
      readCertFile = (\<lambda>p. if p = ''/etc/caddy/azure.crt'' then Inr ''MIIC8DCCAdigAwIBAgIQ''
                           else Inl ''no such file or directory''),
      readFile = (\<lambda>p. Inl ''no such file or directory''),
      defaultUserInterface = ''<html>{{ .Message }}</html>'',
      template_Parse = (\<lambda>body. Inr (Tmpl body)),
      template_Execute = (\<lambda>t args. Inr (''<html>'' @ Message args @ ''</html>''))\<rparr>"

text \<open>
  The configuration as loaded (\<open>az0\<close>, \<open>m0\<close>), and a validated one with a configured
  secret and three bindings (\<open>az1\<close>, \<open>m1\<close>).
\<close>

definition jwt0 :: TokenParameters where
  "jwt0 = \<lparr>TokenName = ''JWT_TOKEN'', TokenSecret = ''0e2fdcf8'', TokenIssuer = ''localhost''\<rparr>"

definition az0 :: AzureIdp where
  "az0 =
     \<lparr>AuthURLPath = [], SuccessURLPath = [],
      Jwt = \<lparr>TokenName = [], TokenSecret = [], TokenIssuer = []\<rparr>,
      Enabled = True, ServiceProviders = [], IdpMetadataLocation = [], IdpMetadataURL = None,
      IdpSignCertLocation = ''/etc/caddy/azure.crt'',
      TenantID = ''1b9e886b'', ApplicationID = ''623cae7c'', ApplicationName = ''My Gatekeeper'',
      LoginURL = [], EntityID = ''urn:caddy:mygatekeeper'',
      AssertionConsumerServiceURLs =
        [''https://10.10.10.10/saml'', ''https://app.example.com/saml'']\<rparr>"

definition m0 :: AuthProvider where
  "m0 =
     \<lparr>AuthURLPath = ''/saml'', SuccessURLPath = ''/'',
      Jwt = \<lparr>TokenName = [], TokenSecret = [], TokenIssuer = []\<rparr>,
      provider_Name = ''saml'', Azure = Some az0, UI = None, idpProviderCount = 0\<rparr>"

definition metadata_location0 :: string where
  "metadata_location0 =
     ''https://login.microsoftonline.com/1b9e886b/federationmetadata/2007-06/federationmetadata.xml''"

definition sp1 :: ServiceProvider where
  "sp1 = \<lparr>MetadataURL = URL metadata_location0, AcsURL = URL ''https://10.10.10.10/saml'',
          IDPMetadata = Some 0, AllowIDPInitiated = True\<rparr>"

definition sp2 :: ServiceProvider where
  "sp2 = \<lparr>MetadataURL = URL metadata_location0, AcsURL = URL ''https://app.example.com/saml'',
          IDPMetadata = Some 0, AllowIDPInitiated = True\<rparr>"

definition sp3 :: ServiceProvider where
  "sp3 = \<lparr>MetadataURL = URL ''urn:caddy:other'', AcsURL = URL ''https://app.example.com/saml'',
          IDPMetadata = Some 0, AllowIDPInitiated = True\<rparr>"

definition az1 :: AzureIdp where
  "az1 = az0\<lparr>Jwt := jwt0, ServiceProviders := [sp1, sp2, sp3]\<rparr>"

text \<open>
  Requests: an eligible one with the payload that the second binding accepts, one with a
  payload that no binding accepts, one with another content type, and one that does not
  come from the identity provider.
\<close>

definition req0 :: Request where
  "req0 =
     \<lparr>Method = ''POST'',
      Header = [''Content-Type'' \<mapsto> ''application/x-www-form-urlencoded'',
                ''Origin'' \<mapsto> ''https://login.microsoftonline.com''],
      Form = [''SAMLResponse'' \<mapsto> ''PFJlc3BvbnNlLz4='']\<rparr>"

definition req_forged :: Request where
  "req_forged = req0\<lparr>Form := [''SAMLResponse'' \<mapsto> ''PGZvcmdlZC8+'']\<rparr>"

definition req_json :: Request where
  "req_json = req0\<lparr>Header := [''Content-Type'' \<mapsto> ''application/json'',
                                  ''Origin'' \<mapsto> ''https://login.microsoftonline.com'']\<rparr>"

definition req_local :: Request where
  "req_local = req0\<lparr>Header := [''Content-Type'' \<mapsto> ''application/x-www-form-urlencoded'',
                                   ''Origin'' \<mapsto> ''https://app.example.com'',
                                   ''Referer'' \<mapsto> ''https://app.example.com/saml'']\<rparr>"

definition ui1 :: UserInterface where
  "ui1 =
     UserInterface_zero
       \<lparr>Template := Some (Tmpl ''<html>{{ .Message }}</html>''), Title := ''Sign In'',
        AuthEndpoint := ''/saml''\<rparr>"

definition m1 :: AuthProvider where
  "m1 = m0\<lparr>Jwt := jwt0, Azure := Some az1, UI := Some ui1, idpProviderCount := 1\<rparr>"

text \<open>An assertion without an email address, and an environment whose SAML library returns it.\<close>

definition assertion_noemail :: Assertion where
  "assertion_noemail =
     \<lparr>AttributeStatements =
        [\<lparr>Attributes =
           [\<lparr>attr_Name = ''http://schemas.microsoft.com/identity/claims/displayname'',
             Values = [AttributeValue ''John Doe'']\<rparr>,
            \<lparr>attr_Name = ''http://claims.example.com/SAML/Attributes/Role'',
             Values = [AttributeValue ''admin'']\<rparr>]\<rparr>]\<rparr>"

definition lib_noemail :: lib where
  "lib_noemail = lib0\<lparr>ParseXMLResponse := (\<lambda>sp raw ids. Inr assertion_noemail)\<rparr>"

text \<open>The example configuration as validation leaves it.\<close>

definition keyDescriptor0 :: KeyDescriptor where
  "keyDescriptor0 =
     \<lparr>Use = ''signing'',
      KeyInfo = \<lparr>XMLName = \<lparr>Space = ''http://www.w3.org/2000/09/xmldsig#'', Local = ''KeyInfo''\<rparr>,
                 Certificate = ''MIIC8DCCAdigAwIBAgIQ''\<rparr>\<rparr>"

definition store0_validated :: store where
  "store0_validated =
     [\<lparr>IDPSSODescriptors = [\<lparr>KeyDescriptors = [keyDescriptor0, keyDescriptor0]\<rparr>]\<rparr>]"

definition az0_validated :: AzureIdp where
  "az0_validated =
     az0\<lparr>ServiceProviders := [sp1, sp2],
         IdpMetadataLocation := metadata_location0,
         IdpMetadataURL := Some (URL metadata_location0),
         LoginURL := ''https://account.activedirectory.windowsazure.com/applications/signin/''
                       @ ''My Gatekeeper/623cae7c?tenantId=1b9e886b''\<rparr>"

definition jwt0_validated :: TokenParameters where
  "jwt0_validated = \<lparr>TokenName = ''JWT_TOKEN'', TokenSecret = [], TokenIssuer = ''localhost''\<rparr>"

definition az0_ready :: AzureIdp where
  "az0_ready = az0_validated\<lparr>Jwt := jwt0_validated\<rparr>"

definition ui0_validated :: UserInterface where
  "ui0_validated =
     UserInterface_zero
       \<lparr>Template := Some (Tmpl ''<html>{{ .Message }}</html>''), Title := ''Sign In''\<rparr>"

definition m0_validated :: AuthProvider where
  "m0_validated =
     m0\<lparr>Jwt := jwt0_validated,
        Azure := Some az0_ready,
        UI := Some (ui0_validated
                \<lparr>Links := [\<lparr>Link = LoginURL az0_validated, link_Title = ''Office 365'',
                             Style = ''fa-windows''\<rparr>],
                 AuthEndpoint := ''/saml''\<rparr>),
        idpProviderCount := 1\<rparr>"

text \<open>The same configuration with the metadata in a local file.\<close>

definition az0_file :: AzureIdp where
  "az0_file = az0\<lparr>IdpMetadataLocation := ''/etc/caddy/metadata.xml''\<rparr>"

definition claims0 :: UserClaims where
  "claims0 =
     \<lparr>ExpiresAt = 1600003600, Issuer = ''localhost'', Subject = ''jdoe'', Name = ''John Doe'',
      Email = ''jdoe@example.com'', Roles = [''admin'', ''user''], Origin = []\<rparr>"

text \<open>
  The example assertion with a session duration of 9223372037 seconds, and an environment
  whose SAML library returns it and whose clock moves two seconds between readings.
\<close>

definition assertion_long :: Assertion where
  "assertion_long =
     \<lparr>AttributeStatements =
        [\<lparr>Attributes =
           [\<lparr>attr_Name = ''http://schemas.microsoft.com/identity/claims/displayname'',
             Values = [AttributeValue ''John Doe'']\<rparr>,
            \<lparr>attr_Name = ''http://schemas.xmlsoap.org/ws/2005/05/identity/claims/emailaddress'',
             Values = [AttributeValue ''jdoe@example.com'']\<rparr>,
            \<lparr>attr_Name = ''http://schemas.xmlsoap.org/ws/2005/05/identity/claims/name'',
             Values = [AttributeValue ''jdoe'']\<rparr>,
            \<lparr>attr_Name = ''http://claims.example.com/SAML/Attributes/Role'',
             Values = [AttributeValue ''admin'', AttributeValue ''user'']\<rparr>,
            \<lparr>attr_Name = ''http://claims.example.com/SAML/Attributes/MaxSessionDuration'',
             Values = [AttributeValue ''9223372037'']\<rparr>]\<rparr>]\<rparr>"

definition lib_long :: lib where
  "lib_long =
     lib0\<lparr>now := (\<lambda>i. 1600000000000000000 + int i * 2000000000),
          ParseXMLResponse := (\<lambda>sp raw ids. Inr assertion_long)\<rparr>"

definition claims_long :: UserClaims where
  "claims_long = claims0\<lparr>ExpiresAt := - 7623372035, Issuer := []\<rparr>"

definition fx0 :: effects where
  "fx0 = \<lparr>clock_reads = 0, parse_calls = [], logged = []\<rparr>"

definition w0 :: ResponseWriter where
  "w0 = \<lparr>rw_Header = Map.empty, rw_calls = []\<rparr>"

definition user0 :: User where
  "user0 =
     \<lparr>ID = ''jdoe@example.com'',
      Metadata = [''name'' \<mapsto> ''John Doe'', ''email'' \<mapsto> ''jdoe@example.com'',
                  ''roles'' \<mapsto> ''admin user'']\<rparr>"

section \<open>Properties of AzureIdp.Authenticate\<close>

subsection \<open>The scan over the service providers\<close>

lemma Roles_foldl:
  "foldl (\<lambda>c e. c\<lparr>Roles := Roles c @ [Value e]\<rparr>) claims vs
     = claims\<lparr>Roles := Roles claims @ map Value vs\<rparr>"
  by (induction vs arbitrary: claims) simp_all

lemma attrEntry_parse_calls:
  "parse_calls (snd (Authenticate_attrEntry L st a)) = parse_calls (snd st)"
  by (simp add: Authenticate_attrEntry_def Let_def split: sum.splits)

lemma attrs_parse_calls:
  "parse_calls (snd (foldl (Authenticate_attrEntry L) st as)) = parse_calls (snd st)"
  by (induction as arbitrary: st) (simp_all add: attrEntry_parse_calls)

lemma attributes_parse_calls:
  "parse_calls (snd (Authenticate_attributes L a st)) = parse_calls (snd st)"
proof -
  have "parse_calls (snd (foldl (\<lambda>st s. foldl (Authenticate_attrEntry L) st (Attributes s)) st ss))
          = parse_calls (snd st)" for ss :: "AttributeStatement list"
    by (induction ss arbitrary: st) (simp_all add: attrs_parse_calls)
  then show ?thesis by (simp add: Authenticate_attributes_def)
qed

lemma assertion_parse_calls:
  "parse_calls (snd (Authenticate_assertion L az a fx)) = parse_calls fx"
  by (simp add: Authenticate_assertion_def Let_def attributes_parse_calls
        Authenticate_newClaims_def split: sum.splits)

text \<open>
  The loop returns from inside the first iteration whose parse succeeds: the bindings
  after it have no part in the result, and the errors collected before it are dropped.
\<close>

lemma serviceProviders_first_success:
  assumes "\<forall>p\<in>set pre. isl (ParseXMLResponse L p raw [[]])"
    and "ParseXMLResponse L sp raw [[]] = Inr a"
  shows "Authenticate_serviceProviders L az raw (pre @ sp # post) errs fx
          = Authenticate_assertion L az a (fx\<lparr>parse_calls := parse_calls fx @ pre @ [sp]\<rparr>)"
  using assms
proof (induction pre arbitrary: errs fx)
  case Nil
  then show ?case by simp
next
  case (Cons p pre)
  then obtain e where "ParseXMLResponse L p raw [[]] = Inl e"
    by (cases "ParseXMLResponse L p raw [[]]") auto
  with Cons show ?case by simp
qed

lemma serviceProviders_all_fail:
  assumes "map (\<lambda>p. ParseXMLResponse L p raw [[]]) sps = map Inl es"
  shows "Authenticate_serviceProviders L az raw sps errs fx
          = (Inl (''The Azure AD validation failures: '' @ Join (errs @ es) '', ''),
             fx\<lparr>parse_calls := parse_calls fx @ sps\<rparr>)"
  using assms
proof (induction sps arbitrary: es errs fx)
  case Nil
  then show ?case by simp
next
  case (Cons p sps)
  then obtain e es' where es: "es = e # es'" by (cases es) auto
  with Cons.prems have p: "ParseXMLResponse L p raw [[]] = Inl e"
    and rest: "map (\<lambda>p. ParseXMLResponse L p raw [[]]) sps = map Inl es'" by auto
  show ?case using Cons.IH[OF rest] p es by simp
qed

text \<open>The claims that the example assertion gives, before the issuer is set.\<close>

lemma eval_claims0:
  "fst (Authenticate_attributes lib0 assertion0
          (Authenticate_newClaims lib0 (fx0\<lparr>parse_calls := [sp1, sp2]\<rparr>)))
     = claims0\<lparr>Issuer := []\<rparr>"
  by (simp add: Authenticate_attributes_def Authenticate_newClaims_def
        Authenticate_attrEntry_def lib0_def assertion0_def fx0_def claims0_def
        HasSuffix_def Atoi_def isDigit_def digitVal_def Let_def UserClaims_zero_def
        Time_Add_def Time_Unix_def Second_def)

text \<open>
  Claim C1. A request that passes the three checks of the request is decoded once, and
  the decoded response is offered to the bindings in the order of \<open>ServiceProviders\<close>.
  When the bindings \<open>pre\<close> all reject it and the next binding \<open>sp\<close> returns an assertion,
  the result of \<open>Authenticate\<close> is what the claims mapping and the signing make of that
  assertion, and \<open>ParseXMLResponse\<close> has been called on \<open>pre\<close> and \<open>sp\<close> and on no binding
  after \<open>sp\<close>, whatever those are. So a response that the first binding rejects and the
  second accepts is authenticated from the second binding's assertion: when the claims
  built from it have an email and a name and the signer returns a token, \<open>Authenticate\<close>
  returns the user and that token.
\<close>

theorem C1_first_binding_wins:
  assumes "Header_Get r ''Content-Type'' = ''application/x-www-form-urlencoded''"
    and "FormValue r ''SAMLResponse'' \<noteq> []"
    and "DecodeString L (FormValue r ''SAMLResponse'') = Inr raw"
    and "ServiceProviders az = pre @ sp # post"
    and "\<forall>p\<in>set pre. isl (ParseXMLResponse L p raw [[]])"
    and "ParseXMLResponse L sp raw [[]] = Inr a"
    and "fx1 = fx\<lparr>parse_calls := parse_calls fx @ pre @ [sp]\<rparr>"
    and "claims = fst (Authenticate_attributes L a (Authenticate_newClaims L fx1))"
  shows "fst (AzureIdp_Authenticate L (Some az) r fx)
           = Done (fst (Authenticate_assertion L az a fx1))
         \<and> parse_calls (snd (AzureIdp_Authenticate L (Some az) r fx))
           = parse_calls fx @ pre @ [sp]
         \<and> (Email claims \<noteq> [] \<and> Name claims \<noteq> []
              \<and> SignedString L (if TokenIssuer (Jwt az) \<noteq> []
                                 then claims\<lparr>Issuer := TokenIssuer (Jwt az)\<rparr> else claims)
                    (TokenSecret (Jwt az)) = Inr tok
            \<longrightarrow> fst (AzureIdp_Authenticate L (Some az) r fx)
                  = Done (Inr (\<lparr>ID = Email claims,
                                Metadata = [''name'' \<mapsto> Name claims, ''email'' \<mapsto> Email claims,
                                            ''roles'' \<mapsto> Join (Roles claims) '' '']\<rparr>, tok)))"
proof -
  have res: "AzureIdp_Authenticate L (Some az) r fx
               = (Done (fst (Authenticate_assertion L az a fx1)),
                  snd (Authenticate_assertion L az a fx1))"
    using assms(1-7)
    by (simp add: AzureIdp_Authenticate_def Let_def serviceProviders_first_success)
  have "fst (Authenticate_assertion L az a fx1)
          = Inr (\<lparr>ID = Email claims,
                  Metadata = [''name'' \<mapsto> Name claims, ''email'' \<mapsto> Email claims,
                              ''roles'' \<mapsto> Join (Roles claims) '' '']\<rparr>, tok)"
    if "Email claims \<noteq> []" "Name claims \<noteq> []"
       "SignedString L (if TokenIssuer (Jwt az) \<noteq> []
                        then claims\<lparr>Issuer := TokenIssuer (Jwt az)\<rparr> else claims)
          (TokenSecret (Jwt az)) = Inr tok"
    using that assms(8)
    by (auto simp: Authenticate_assertion_def Let_def)
  with res show ?thesis
    by (simp add: assertion_parse_calls assms(7))
qed

theorem C1_first_binding_wins_witness:
  "fst (AzureIdp_Authenticate lib0 (Some az1) req0 fx0)
     = Done (Inr (user0, ''hs512:0e2fdcf8:jdoe@example.com''))
   \<and> parse_calls (snd (AzureIdp_Authenticate lib0 (Some az1) req0 fx0)) = [sp1, sp2]"
proof -
  have 1: "Header_Get req0 ''Content-Type'' = ''application/x-www-form-urlencoded''"
    by (simp add: Header_Get_def req0_def)
  have 2: "FormValue req0 ''SAMLResponse'' \<noteq> []"
    by (simp add: FormValue_def req0_def)
  have 3: "DecodeString lib0 (FormValue req0 ''SAMLResponse'') = Inr ''<Response/>''"
    by (simp add: FormValue_def req0_def lib0_def)
  have 4: "ServiceProviders az1 = [sp1] @ sp2 # [sp3]"
    by (simp add: az1_def)
  have 5: "\<forall>p\<in>set [sp1]. isl (ParseXMLResponse lib0 p ''<Response/>'' [[]])"
    by (simp add: lib0_def sp1_def)
  have 6: "ParseXMLResponse lib0 sp2 ''<Response/>'' [[]] = Inr assertion0"
    by (simp add: lib0_def sp2_def)
  have 7: "fx0\<lparr>parse_calls := [sp1, sp2]\<rparr> = fx0\<lparr>parse_calls := parse_calls fx0 @ [sp1] @ [sp2]\<rparr>"
    by (simp add: fx0_def)
  have 8: "Email (claims0\<lparr>Issuer := []\<rparr>) \<noteq> [] \<and> Name (claims0\<lparr>Issuer := []\<rparr>) \<noteq> []
           \<and> SignedString lib0 (if TokenIssuer (Jwt az1) \<noteq> []
                                 then claims0\<lparr>Issuer := [], Issuer := TokenIssuer (Jwt az1)\<rparr>
                                 else claims0\<lparr>Issuer := []\<rparr>)
                    (TokenSecret (Jwt az1)) = Inr ''hs512:0e2fdcf8:jdoe@example.com''"
    by (simp add: claims0_def lib0_def az1_def jwt0_def)
  have 9: "\<lparr>ID = Email (claims0\<lparr>Issuer := []\<rparr>),
            Metadata = [''name'' \<mapsto> Name (claims0\<lparr>Issuer := []\<rparr>),
                        ''email'' \<mapsto> Email (claims0\<lparr>Issuer := []\<rparr>),
                        ''roles'' \<mapsto> Join (Roles (claims0\<lparr>Issuer := []\<rparr>)) '' '']\<rparr> = user0"
    by (simp add: claims0_def user0_def)
  note C1 = C1_first_binding_wins [OF 1 2 3 4 5 6 7 eval_claims0 [symmetric],
              of "''hs512:0e2fdcf8:jdoe@example.com''"]
  have a: "fst (AzureIdp_Authenticate lib0 (Some az1) req0 fx0)
             = Done (Inr (user0, ''hs512:0e2fdcf8:jdoe@example.com''))"
    using C1 [THEN conjunct2, THEN conjunct2] 8 9 by simp
  have b: "parse_calls (snd (AzureIdp_Authenticate lib0 (Some az1) req0 fx0)) = [sp1, sp2]"
    using C1 [THEN conjunct2, THEN conjunct1] by (simp add: fx0_def)
  from a b show ?thesis by simp
qed

subsection \<open>Substrings and joins\<close>

lemma HasPrefix_iff: "HasPrefix s p \<longleftrightarrow> (\<exists>q. s = p @ q)"
proof
  assume "HasPrefix s p"
  then have "s = p @ drop (length p) s"
    by (metis HasPrefix_def append_take_drop_id)
  then show "\<exists>q. s = p @ q" ..
next
  assume "\<exists>q. s = p @ q"
  then show "HasPrefix s p" by (auto simp: HasPrefix_def)
qed

lemma Contains_iff: "Contains s sub \<longleftrightarrow> (\<exists>p q. s = p @ sub @ q)"
proof (induction s)
  case Nil
  then show ?case by simp
next
  case (Cons c cs)
  show ?case
  proof
    assume "Contains (c # cs) sub"
    then consider "HasPrefix (c # cs) sub" | "Contains cs sub" by auto
    then show "\<exists>p q. c # cs = p @ sub @ q"
    proof cases
      case 1
      then obtain q where "c # cs = sub @ q" by (auto simp: HasPrefix_iff)
      then have "c # cs = [] @ sub @ q" by simp
      then show ?thesis by blast
    next
      case 2
      with Cons obtain p q where "cs = p @ sub @ q" by auto
      then have "c # cs = (c # p) @ sub @ q" by simp
      then show ?thesis by blast
    qed
  next
    assume "\<exists>p q. c # cs = p @ sub @ q"
    then obtain p q where pq: "c # cs = p @ sub @ q" by auto
    show "Contains (c # cs) sub"
    proof (cases p)
      case Nil
      with pq have "HasPrefix (c # cs) sub" by (auto simp: HasPrefix_iff)
      then show ?thesis by simp
    next
      case (Cons d p')
      with pq have "cs = p' @ sub @ q" by simp
      with Cons.IH have "Contains cs sub" by blast
      then show ?thesis by simp
    qed
  qed
qed

lemma Join_has: "e \<in> set es \<Longrightarrow> \<exists>p q. Join es sep = p @ e @ q"
proof (induction es sep rule: Join.induct)
  case (1 sep)
  then show ?case by simp
next
  case (2 a sep)
  then have "Join [a] sep = [] @ e @ []" by simp
  then show ?case by blast
next
  case (3 a b rest sep)
  show ?case
  proof (cases "e = a")
    case True
    then have "Join (a # b # rest) sep = [] @ e @ (sep @ Join (b # rest) sep)" by simp
    then show ?thesis by blast
  next
    case False
    with 3 obtain p q where "Join (b # rest) sep = p @ e @ q" by auto
    then have "Join (a # b # rest) sep = (a @ sep @ p) @ e @ q" by simp
    then show ?thesis by blast
  qed
qed

text \<open>
  Claim C2. When the request passes the three checks and every binding rejects the decoded
  response, with the error messages \<open>errs\<close> (one for each binding, in the order of the
  bindings), \<open>Authenticate\<close> has called every binding and returns the error whose message
  is the fixed prefix followed by all of \<open>errs\<close> joined with a comma and a space: every
  binding's message is in it, once for each binding that gave it.
\<close>

theorem C2_all_bindings_fail:
  assumes "Header_Get r ''Content-Type'' = ''application/x-www-form-urlencoded''"
    and "FormValue r ''SAMLResponse'' \<noteq> []"
    and "DecodeString L (FormValue r ''SAMLResponse'') = Inr raw"
    and "map (\<lambda>p. ParseXMLResponse L p raw [[]]) (ServiceProviders az) = map Inl errs"
  shows "AzureIdp_Authenticate L (Some az) r fx
           = (Done (Inl (''The Azure AD validation failures: '' @ Join errs '', '')),
              fx\<lparr>parse_calls := parse_calls fx @ ServiceProviders az\<rparr>)
         \<and> length errs = length (ServiceProviders az)
         \<and> (\<forall>e\<in>set errs. Contains (''The Azure AD validation failures: '' @ Join errs '', '') e)"
proof -
  have "Contains (''The Azure AD validation failures: '' @ Join errs '', '') e"
    if "e \<in> set errs" for e
  proof -
    from that obtain p q where "Join errs '', '' = p @ e @ q"
      using Join_has by blast
    then have "''The Azure AD validation failures: '' @ Join errs '', ''
                 = (''The Azure AD validation failures: '' @ p) @ e @ q" by simp
    then show ?thesis unfolding Contains_iff by blast
  qed
  moreover have "length errs = length (ServiceProviders az)"
    using assms(4) by (metis length_map)
  ultimately show ?thesis
    using assms
    by (simp add: AzureIdp_Authenticate_def Let_def serviceProviders_all_fail)
qed

theorem C2_all_bindings_fail_witness:
  "AzureIdp_Authenticate lib0 (Some az1) req_forged fx0
     = (Done (Inl (''The Azure AD validation failures: ''
          @ ''cannot validate response for https://10.10.10.10/saml, ''
          @ ''cannot validate response for https://app.example.com/saml, ''
          @ ''cannot validate response for https://app.example.com/saml'')),
        fx0\<lparr>parse_calls := [sp1, sp2, sp3]\<rparr>)"
proof -
  have 1: "Header_Get req_forged ''Content-Type'' = ''application/x-www-form-urlencoded''"
    by (simp add: Header_Get_def req_forged_def req0_def)
  have 2: "FormValue req_forged ''SAMLResponse'' \<noteq> []"
    by (simp add: FormValue_def req_forged_def)
  have 3: "DecodeString lib0 (FormValue req_forged ''SAMLResponse'') = Inr ''<forged/>''"
    by (simp add: FormValue_def req_forged_def lib0_def)
  have 4: "map (\<lambda>p. ParseXMLResponse lib0 p ''<forged/>'' [[]]) (ServiceProviders az1)
             = map Inl [''cannot validate response for https://10.10.10.10/saml'',
                        ''cannot validate response for https://app.example.com/saml'',
                        ''cannot validate response for https://app.example.com/saml'']"
    by (simp add: lib0_def az1_def sp1_def sp2_def sp3_def)
  show ?thesis
    using C2_all_bindings_fail [OF 1 2 3 4, of fx0, THEN conjunct1]
    by (simp add: fx0_def az1_def)
qed

section \<open>Properties of AuthProvider.Authenticate\<close>

lemma render_returns:
  assumes "Template ui = Some t"
  shows "\<exists>uiErr w1. render L ui w args = Done (uiErr, w1)"
  using assms by (simp add: render_def split: sum.splits)

lemma renderUI_rejected:
  assumes "Template ui = Some t"
  shows "\<exists>uiErr w1. render L ui w args = Done (uiErr, w1)
           \<and> Authenticate_renderUI L m ui w args None [] False
               = Done ((User_zero, False, None),
                       w1\<lparr>rw_Header := (rw_Header w1)(''WWW-Authenticate'' \<mapsto> ''Bearer'')\<rparr>)"
proof -
  from assms obtain uiErr w1 where "render L ui w args = Done (uiErr, w1)"
    using render_returns by blast
  then show ?thesis
    by (simp add: Authenticate_renderUI_def failAzureAuthentication_def)
qed

text \<open>
  Claim C7. A request whose Content-Type header is not exactly
  \<open>application/x-www-form-urlencoded\<close>, or whose form has no (or an empty) field
  \<open>SAMLResponse\<close>, is refused by \<open>AzureIdp.Authenticate\<close> with the message of the
  check that failed, whatever else the form holds and whatever the receiver is; the
  effects are unchanged, so no binding has been tried and the clock has not been read.
  For such a request the plugin's \<open>Authenticate\<close> (with its user interface loaded)
  returns the empty identity and \<open>false\<close>, whether or not the request was eligible.
\<close>

theorem C7_protocol_errors:
  assumes "Header_Get r ''Content-Type'' \<noteq> ''application/x-www-form-urlencoded''
           \<or> FormValue r ''SAMLResponse'' = []"
  shows "AzureIdp_Authenticate L azp r fx
           = (Done (Inl (if Header_Get r ''Content-Type'' \<noteq> ''application/x-www-form-urlencoded''
                         then ''The Azure AD authorization POST request is not application/x-www-form-urlencoded''
                         else ''The Azure AD authorization POST request has no SAMLResponse'')),
              fx)
         \<and> (UI m = Some ui \<and> Template ui = Some t \<longrightarrow>
              (\<exists>w1. AuthProvider_Authenticate L m w r fx = (Done ((User_zero, False, None), w1), fx)))"
proof -
  have a: "AzureIdp_Authenticate L azp r fx
           = (Done (Inl (if Header_Get r ''Content-Type'' \<noteq> ''application/x-www-form-urlencoded''
                         then ''The Azure AD authorization POST request is not application/x-www-form-urlencoded''
                         else ''The Azure AD authorization POST request has no SAMLResponse'')),
              fx)" for azp
    using assms by (auto simp: AzureIdp_Authenticate_def)
  have "\<exists>w1. AuthProvider_Authenticate L m w r fx = (Done ((User_zero, False, None), w1), fx)"
    if ui: "UI m = Some ui" and t: "Template ui = Some t"
  proof (cases "Method r = ''POST''
              \<and> (Contains (Header_Get r ''Origin'') ''login.microsoftonline.com''
                 \<or> Contains (Header_Get r ''Referer'') ''windowsazure.com'')")
    case True
    obtain msg where msg: "AzureIdp_Authenticate L (Azure m) r fx = (Done (Inl msg), fx)"
      using a by blast
    from renderUI_rejected[OF t] obtain w2 where
      "Authenticate_renderUI L m ui w ((newUserInterfaceArgs ui)\<lparr>Message := msg\<rparr>) None [] False
         = Done ((User_zero, False, None), w2)" by blast
    with True ui msg show ?thesis
      by (simp add: AuthProvider_Authenticate_def Let_def)
  next
    case False
    from renderUI_rejected[OF t] obtain w2 where
      "Authenticate_renderUI L m ui w (newUserInterfaceArgs ui) None [] False
         = Done ((User_zero, False, None), w2)" by blast
    with False ui show ?thesis
      by (auto simp add: AuthProvider_Authenticate_def Let_def)
  qed
  with a show ?thesis by blast
qed

theorem C7_protocol_errors_witness:
  "AzureIdp_Authenticate lib0 (Some az1) req_json fx0
     = (Done (Inl ''The Azure AD authorization POST request is not application/x-www-form-urlencoded''),
        fx0)
   \<and> map_option fst (returned (fst (AuthProvider_Authenticate lib0 m1 w0 req_json fx0)))
       = Some (User_zero, False, None)
   \<and> snd (AuthProvider_Authenticate lib0 m1 w0 req_json fx0) = fx0"
proof -
  have 1: "Header_Get req_json ''Content-Type'' \<noteq> ''application/x-www-form-urlencoded''
           \<or> FormValue req_json ''SAMLResponse'' = []"
    by (simp add: Header_Get_def req_json_def)
  have 2: "UI m1 = Some ui1 \<and> Template ui1 = Some (Tmpl ''<html>{{ .Message }}</html>'')"
    by (simp add: m1_def ui1_def)
  have 3: "Header_Get req_json ''Content-Type'' \<noteq> ''application/x-www-form-urlencoded''"
    by (simp add: Header_Get_def req_json_def)
  show ?thesis
    using C7_protocol_errors [OF 1, of lib0 "Some az1" fx0 m1 ui1 "Tmpl ''<html>{{ .Message }}</html>''" w0] 2 3
    by (auto simp: returned_def)
qed

text \<open>
  Claim C8. For a request (a POST or any other) whose Origin header does not contain
  \<open>login.microsoftonline.com\<close> and whose Referer header does not contain
  \<open>windowsazure.com\<close>, the plugin (with its user interface loaded) renders the form with
  the arguments as \<open>newUserInterfaceArgs\<close> builds them, whose message is empty, sets the
  \<open>WWW-Authenticate\<close> header and returns the empty identity and \<open>false\<close>. The effects
  are unchanged: \<open>ParseXMLResponse\<close> has not been called.
\<close>

theorem C8_not_eligible:
  assumes "\<not> Contains (Header_Get r ''Origin'') ''login.microsoftonline.com''"
    and "\<not> Contains (Header_Get r ''Referer'') ''windowsazure.com''"
    and "UI m = Some ui"
    and "Template ui = Some t"
  shows "\<exists>uiErr w1.
           render L ui w (newUserInterfaceArgs ui) = Done (uiErr, w1)
           \<and> Message (newUserInterfaceArgs ui) = []
           \<and> AuthProvider_Authenticate L m w r fx
               = (Done ((User_zero, False, None),
                        w1\<lparr>rw_Header := (rw_Header w1)(''WWW-Authenticate'' \<mapsto> ''Bearer'')\<rparr>),
                  fx)"
proof -
  from renderUI_rejected[OF assms(4)] obtain uiErr w1 where
    "render L ui w (newUserInterfaceArgs ui) = Done (uiErr, w1)"
    "Authenticate_renderUI L m ui w (newUserInterfaceArgs ui) None [] False
       = Done ((User_zero, False, None),
               w1\<lparr>rw_Header := (rw_Header w1)(''WWW-Authenticate'' \<mapsto> ''Bearer'')\<rparr>)"
    by blast
  moreover have "Message (newUserInterfaceArgs ui) = []"
    by (simp add: newUserInterfaceArgs_def)
  ultimately show ?thesis
    using assms(1-3) by (simp add: AuthProvider_Authenticate_def Let_def)
qed

theorem C8_not_eligible_witness:
  "Method req_local = ''POST''
   \<and> AuthProvider_Authenticate lib0 m1 w0 req_local fx0
       = (Done ((User_zero, False, None),
                \<lparr>rw_Header = [''Cache-Control'' \<mapsto> ''no-cache, no-store, must-revalidate'',
                              ''Content-Type'' \<mapsto> ''text/html'',
                              ''WWW-Authenticate'' \<mapsto> ''Bearer''],
                 rw_calls = [Write ''<html></html>'']\<rparr>),
          fx0)"
proof -
  have 1: "\<not> Contains (Header_Get req_local ''Origin'') ''login.microsoftonline.com''"
    by (simp add: Header_Get_def req_local_def HasPrefix_def)
  have 2: "\<not> Contains (Header_Get req_local ''Referer'') ''windowsazure.com''"
    by (simp add: Header_Get_def req_local_def HasPrefix_def)
  have 3: "UI m1 = Some ui1" by (simp add: m1_def)
  have 4: "Template ui1 = Some (Tmpl ''<html>{{ .Message }}</html>'')" by (simp add: ui1_def)
  have 5: "render lib0 ui1 w0 (newUserInterfaceArgs ui1)
             = Done (None, \<lparr>rw_Header = [''Cache-Control'' \<mapsto> ''no-cache, no-store, must-revalidate'',
                              ''Content-Type'' \<mapsto> ''text/html''],
                            rw_calls = [Write ''<html></html>'']\<rparr>)"
    by (simp add: render_def ui1_def lib0_def newUserInterfaceArgs_def w0_def)
  show ?thesis
    using C8_not_eligible [OF 1 2 3 4, of lib0 w0 fx0] 5
    by (auto simp: req_local_def req0_def)
qed

section \<open>Properties of the claims mapping\<close>

text \<open>
  The six suffixes end differently (in their last five characters), so a name matches
  at most one of them and the order of the tests does not matter.
\<close>

lemma HasSuffix_rev_take:
  assumes "HasSuffix n s" and "k \<le> length s"
  shows "take k (rev n) = take k (rev s)"
proof -
  from assms(1) have "n = take (length n - length s) n @ s"
    by (metis HasSuffix_def append_take_drop_id)
  then obtain p where "n = p @ s" ..
  with assms(2) show ?thesis by simp
qed

lemma suffixes_differ:
  assumes "HasSuffix n s" and "HasSuffix n t" and "5 \<le> length s" and "5 \<le> length t"
  shows "take 5 (rev s) = take 5 (rev t)"
  using HasSuffix_rev_take[OF assms(1,3)] HasSuffix_rev_take[OF assms(2,4)] by simp

lemma Role_not_others:
  assumes "HasSuffix n ''Attributes/Role''"
  shows "\<not> HasSuffix n ''Attributes/MaxSessionDuration''"
    and "\<not> HasSuffix n ''identity/claims/displayname''"
    and "\<not> HasSuffix n ''identity/claims/emailaddress''"
    and "\<not> HasSuffix n ''identity/claims/identityprovider''"
    and "\<not> HasSuffix n ''identity/claims/name''"
  using suffixes_differ[OF assms, of "''Attributes/MaxSessionDuration''"]
        suffixes_differ[OF assms, of "''identity/claims/displayname''"]
        suffixes_differ[OF assms, of "''identity/claims/emailaddress''"]
        suffixes_differ[OF assms, of "''identity/claims/identityprovider''"]
        suffixes_differ[OF assms, of "''identity/claims/name''"] by auto

lemma displayname_only:
  assumes "HasSuffix n ''identity/claims/displayname''"
  shows "\<not> HasSuffix n ''Attributes/MaxSessionDuration''"
  using suffixes_differ[OF assms, of "''Attributes/MaxSessionDuration''"] by auto

lemma emailaddress_only:
  assumes "HasSuffix n ''identity/claims/emailaddress''"
  shows "\<not> HasSuffix n ''Attributes/MaxSessionDuration''"
    and "\<not> HasSuffix n ''identity/claims/displayname''"
  using suffixes_differ[OF assms, of "''Attributes/MaxSessionDuration''"]
        suffixes_differ[OF assms, of "''identity/claims/displayname''"] by auto

lemma identityprovider_only:
  assumes "HasSuffix n ''identity/claims/identityprovider''"
  shows "\<not> HasSuffix n ''Attributes/MaxSessionDuration''"
    and "\<not> HasSuffix n ''identity/claims/displayname''"
    and "\<not> HasSuffix n ''identity/claims/emailaddress''"
  using suffixes_differ[OF assms, of "''Attributes/MaxSessionDuration''"]
        suffixes_differ[OF assms, of "''identity/claims/displayname''"]
        suffixes_differ[OF assms, of "''identity/claims/emailaddress''"] by auto

lemma name_only:
  assumes "HasSuffix n ''identity/claims/name''"
  shows "\<not> HasSuffix n ''Attributes/MaxSessionDuration''"
    and "\<not> HasSuffix n ''identity/claims/displayname''"
    and "\<not> HasSuffix n ''identity/claims/emailaddress''"
    and "\<not> HasSuffix n ''identity/claims/identityprovider''"
  using suffixes_differ[OF assms, of "''Attributes/MaxSessionDuration''"]
        suffixes_differ[OF assms, of "''identity/claims/displayname''"]
        suffixes_differ[OF assms, of "''identity/claims/emailaddress''"]
        suffixes_differ[OF assms, of "''identity/claims/identityprovider''"] by auto

text \<open>
  Claim C10. An attribute with the values \<open>v # vs\<close> whose name ends in one of the five
  single-valued suffixes is mapped from its first value \<open>v\<close> alone: MaxSessionDuration
  sets the expiry from the number read from \<open>v\<close> (or logs that \<open>v\<close> is not a number),
  displayname sets the name to \<open>v\<close>, emailaddress the email, identityprovider the origin
  and name the subject. Nothing else changes and nothing is logged about \<open>vs\<close>, so the
  result is the same as with the single value \<open>v\<close>. For an attribute whose name ends in
  \<open>Attributes/Role\<close>, every value of the list is appended to the roles, in order.
\<close>

theorem C10_first_value_only:
  "(HasSuffix n ''Attributes/MaxSessionDuration'' \<longrightarrow>
      Authenticate_attrEntry L (claims, fx) \<lparr>attr_Name = n, Values = v # vs\<rparr>
        = (case Atoi (Value v) of
             Inl err \<Rightarrow>
               (claims,
                fx\<lparr>logged := logged fx @ [LogError ''Failed parsing Attributes/MaxSessionDuration'' err]\<rparr>)
           | Inr N \<Rightarrow>
               (claims\<lparr>ExpiresAt := Time_Unix (Time_Add (now L (clock_reads fx)) (N * Second))\<rparr>,
                fx\<lparr>clock_reads := Suc (clock_reads fx)\<rparr>)))
   \<and> (HasSuffix n ''identity/claims/displayname'' \<longrightarrow>
      Authenticate_attrEntry L (claims, fx) \<lparr>attr_Name = n, Values = v # vs\<rparr>
        = (claims\<lparr>Name := Value v\<rparr>, fx))
   \<and> (HasSuffix n ''identity/claims/emailaddress'' \<longrightarrow>
      Authenticate_attrEntry L (claims, fx) \<lparr>attr_Name = n, Values = v # vs\<rparr>
        = (claims\<lparr>Email := Value v\<rparr>, fx))
   \<and> (HasSuffix n ''identity/claims/identityprovider'' \<longrightarrow>
      Authenticate_attrEntry L (claims, fx) \<lparr>attr_Name = n, Values = v # vs\<rparr>
        = (claims\<lparr>Origin := Value v\<rparr>, fx))
   \<and> (HasSuffix n ''identity/claims/name'' \<longrightarrow>
      Authenticate_attrEntry L (claims, fx) \<lparr>attr_Name = n, Values = v # vs\<rparr>
        = (claims\<lparr>Subject := Value v\<rparr>, fx))
   \<and> (HasSuffix n ''Attributes/Role'' \<longrightarrow>
      Authenticate_attrEntry L (claims, fx) \<lparr>attr_Name = n, Values = vs\<rparr>
        = (claims\<lparr>Roles := Roles claims @ map Value vs\<rparr>, fx))
   \<and> (HasSuffix n ''Attributes/MaxSessionDuration'' \<or> HasSuffix n ''identity/claims/displayname''
        \<or> HasSuffix n ''identity/claims/emailaddress''
        \<or> HasSuffix n ''identity/claims/identityprovider''
        \<or> HasSuffix n ''identity/claims/name''
      \<longrightarrow> Authenticate_attrEntry L st \<lparr>attr_Name = n, Values = v # vs\<rparr>
            = Authenticate_attrEntry L st \<lparr>attr_Name = n, Values = [v]\<rparr>)"
proof -
  have dur: "Authenticate_attrEntry L (claims, fx) \<lparr>attr_Name = n, Values = v # vs\<rparr>
        = (case Atoi (Value v) of
             Inl err \<Rightarrow>
               (claims,
                fx\<lparr>logged := logged fx @ [LogError ''Failed parsing Attributes/MaxSessionDuration'' err]\<rparr>)
           | Inr N \<Rightarrow>
               (claims\<lparr>ExpiresAt := Time_Unix (Time_Add (now L (clock_reads fx)) (N * Second))\<rparr>,
                fx\<lparr>clock_reads := Suc (clock_reads fx)\<rparr>))"
    if "HasSuffix n ''Attributes/MaxSessionDuration''"
    using that by (simp add: Authenticate_attrEntry_def)
  have dn: "Authenticate_attrEntry L (claims, fx) \<lparr>attr_Name = n, Values = v # vs\<rparr>
        = (claims\<lparr>Name := Value v\<rparr>, fx)"
    if "HasSuffix n ''identity/claims/displayname''"
    using that displayname_only[OF that] by (simp add: Authenticate_attrEntry_def)
  have em: "Authenticate_attrEntry L (claims, fx) \<lparr>attr_Name = n, Values = v # vs\<rparr>
        = (claims\<lparr>Email := Value v\<rparr>, fx)"
    if "HasSuffix n ''identity/claims/emailaddress''"
    using that emailaddress_only[OF that] by (simp add: Authenticate_attrEntry_def)
  have ip: "Authenticate_attrEntry L (claims, fx) \<lparr>attr_Name = n, Values = v # vs\<rparr>
        = (claims\<lparr>Origin := Value v\<rparr>, fx)"
    if "HasSuffix n ''identity/claims/identityprovider''"
    using that identityprovider_only[OF that] by (simp add: Authenticate_attrEntry_def)
  have nm: "Authenticate_attrEntry L (claims, fx) \<lparr>attr_Name = n, Values = v # vs\<rparr>
        = (claims\<lparr>Subject := Value v\<rparr>, fx)"
    if "HasSuffix n ''identity/claims/name''"
    using that name_only[OF that] by (simp add: Authenticate_attrEntry_def)
  have ro: "Authenticate_attrEntry L (claims, fx) \<lparr>attr_Name = n, Values = vs\<rparr>
          = (claims\<lparr>Roles := Roles claims @ map Value vs\<rparr>, fx)"
    if "HasSuffix n ''Attributes/Role''"
    using that Role_not_others[OF that]
    by (simp add: Authenticate_attrEntry_def Roles_foldl)
  have one: "Authenticate_attrEntry L st \<lparr>attr_Name = n, Values = v # vs\<rparr>
            = Authenticate_attrEntry L st \<lparr>attr_Name = n, Values = [v]\<rparr>"
    if "HasSuffix n ''Attributes/MaxSessionDuration'' \<or> HasSuffix n ''identity/claims/displayname''
        \<or> HasSuffix n ''identity/claims/emailaddress''
        \<or> HasSuffix n ''identity/claims/identityprovider''
        \<or> HasSuffix n ''identity/claims/name''"
    using that by (auto simp: Authenticate_attrEntry_def Let_def)
  from dur dn em ip nm ro one show ?thesis by blast
qed


theorem C10_first_value_only_witness:
  "Authenticate_attrEntry lib0 (UserClaims_zero, fx0)
       \<lparr>attr_Name = ''http://claims.example.com/SAML/Attributes/MaxSessionDuration'',
        Values = [AttributeValue ''3600'', AttributeValue ''7200'']\<rparr>
     = (UserClaims_zero\<lparr>ExpiresAt := 1600003600\<rparr>, fx0\<lparr>clock_reads := 1\<rparr>)
   \<and> Authenticate_attrEntry lib0 (UserClaims_zero, fx0)
       \<lparr>attr_Name = ''http://schemas.microsoft.com/identity/claims/displayname'',
        Values = [AttributeValue ''John Doe'', AttributeValue ''Jane Roe'']\<rparr>
     = (UserClaims_zero\<lparr>Name := ''John Doe''\<rparr>, fx0)
   \<and> Authenticate_attrEntry lib0 (UserClaims_zero, fx0)
       \<lparr>attr_Name = ''http://schemas.xmlsoap.org/ws/2005/05/identity/claims/emailaddress'',
        Values = [AttributeValue ''jdoe@example.com'', AttributeValue ''root@example.com'']\<rparr>
     = (UserClaims_zero\<lparr>Email := ''jdoe@example.com''\<rparr>, fx0)
   \<and> Authenticate_attrEntry lib0 (UserClaims_zero, fx0)
       \<lparr>attr_Name = ''http://schemas.microsoft.com/identity/claims/identityprovider'',
        Values = [AttributeValue ''https://sts.windows.net/1b9e886b/'',
                  AttributeValue ''https://sts.example.net/'']\<rparr>
     = (UserClaims_zero\<lparr>Origin := ''https://sts.windows.net/1b9e886b/''\<rparr>, fx0)
   \<and> Authenticate_attrEntry lib0 (UserClaims_zero, fx0)
       \<lparr>attr_Name = ''http://schemas.xmlsoap.org/ws/2005/05/identity/claims/name'',
        Values = [AttributeValue ''jdoe'', AttributeValue ''root'']\<rparr>
     = (UserClaims_zero\<lparr>Subject := ''jdoe''\<rparr>, fx0)
   \<and> Authenticate_attrEntry lib0 (UserClaims_zero, fx0)
       \<lparr>attr_Name = ''http://claims.example.com/SAML/Attributes/Role'',
        Values = [AttributeValue ''admin'', AttributeValue ''user'']\<rparr>
     = (UserClaims_zero\<lparr>Roles := [''admin'', ''user'']\<rparr>, fx0)"
proof -
  note T = C10_first_value_only [where L = lib0 and claims = UserClaims_zero and fx = fx0]
  have s1: "HasSuffix ''http://claims.example.com/SAML/Attributes/MaxSessionDuration''
              ''Attributes/MaxSessionDuration''"
    and s2: "HasSuffix ''http://schemas.microsoft.com/identity/claims/displayname''
              ''identity/claims/displayname''"
    and s3: "HasSuffix ''http://schemas.xmlsoap.org/ws/2005/05/identity/claims/emailaddress''
              ''identity/claims/emailaddress''"
    and s4: "HasSuffix ''http://schemas.microsoft.com/identity/claims/identityprovider''
              ''identity/claims/identityprovider''"
    and s5: "HasSuffix ''http://schemas.xmlsoap.org/ws/2005/05/identity/claims/name''
              ''identity/claims/name''"
    and s6: "HasSuffix ''http://claims.example.com/SAML/Attributes/Role'' ''Attributes/Role''"
    by (simp_all add: HasSuffix_def)
  have a: "Atoi (Value (AttributeValue ''3600'')) = Inr 3600"
    by (simp add: Atoi_def isDigit_def digitVal_def)
  have t: "Time_Unix (Time_Add (now lib0 (clock_reads fx0)) (3600 * Second)) = 1600003600"
    by (simp add: Time_Unix_def Time_Add_def Second_def lib0_def fx0_def)
  have 1: "Authenticate_attrEntry lib0 (UserClaims_zero, fx0)
       \<lparr>attr_Name = ''http://claims.example.com/SAML/Attributes/MaxSessionDuration'',
        Values = [AttributeValue ''3600'', AttributeValue ''7200'']\<rparr>
     = (UserClaims_zero\<lparr>ExpiresAt := 1600003600\<rparr>, fx0\<lparr>clock_reads := 1\<rparr>)"
    using T [where n = "''http://claims.example.com/SAML/Attributes/MaxSessionDuration''"
               and v = "AttributeValue ''3600''" and vs = "[AttributeValue ''7200'']",
             THEN conjunct1, rule_format, OF s1]
    by (simp only: a t sum.case) (simp add: fx0_def)
  have 2: "Authenticate_attrEntry lib0 (UserClaims_zero, fx0)
       \<lparr>attr_Name = ''http://schemas.microsoft.com/identity/claims/displayname'',
        Values = [AttributeValue ''John Doe'', AttributeValue ''Jane Roe'']\<rparr>
     = (UserClaims_zero\<lparr>Name := ''John Doe''\<rparr>, fx0)"
    using T [where n = "''http://schemas.microsoft.com/identity/claims/displayname''"
               and v = "AttributeValue ''John Doe''" and vs = "[AttributeValue ''Jane Roe'']",
             THEN conjunct2, THEN conjunct1, rule_format, OF s2]
    by simp
  have 3: "Authenticate_attrEntry lib0 (UserClaims_zero, fx0)
       \<lparr>attr_Name = ''http://schemas.xmlsoap.org/ws/2005/05/identity/claims/emailaddress'',
        Values = [AttributeValue ''jdoe@example.com'', AttributeValue ''root@example.com'']\<rparr>
     = (UserClaims_zero\<lparr>Email := ''jdoe@example.com''\<rparr>, fx0)"
    using T [where n = "''http://schemas.xmlsoap.org/ws/2005/05/identity/claims/emailaddress''"
               and v = "AttributeValue ''jdoe@example.com''"
               and vs = "[AttributeValue ''root@example.com'']",
             THEN conjunct2, THEN conjunct2, THEN conjunct1, rule_format, OF s3]
    by simp
  have 4: "Authenticate_attrEntry lib0 (UserClaims_zero, fx0)
       \<lparr>attr_Name = ''http://schemas.microsoft.com/identity/claims/identityprovider'',
        Values = [AttributeValue ''https://sts.windows.net/1b9e886b/'',
                  AttributeValue ''https://sts.example.net/'']\<rparr>
     = (UserClaims_zero\<lparr>Origin := ''https://sts.windows.net/1b9e886b/''\<rparr>, fx0)"
    using T [where n = "''http://schemas.microsoft.com/identity/claims/identityprovider''"
               and v = "AttributeValue ''https://sts.windows.net/1b9e886b/''"
               and vs = "[AttributeValue ''https://sts.example.net/'']",
             THEN conjunct2, THEN conjunct2, THEN conjunct2, THEN conjunct1, rule_format, OF s4]
    by simp
  have 5: "Authenticate_attrEntry lib0 (UserClaims_zero, fx0)
       \<lparr>attr_Name = ''http://schemas.xmlsoap.org/ws/2005/05/identity/claims/name'',
        Values = [AttributeValue ''jdoe'', AttributeValue ''root'']\<rparr>
     = (UserClaims_zero\<lparr>Subject := ''jdoe''\<rparr>, fx0)"
    using T [where n = "''http://schemas.xmlsoap.org/ws/2005/05/identity/claims/name''"
               and v = "AttributeValue ''jdoe''" and vs = "[AttributeValue ''root'']",
             THEN conjunct2, THEN conjunct2, THEN conjunct2, THEN conjunct2, THEN conjunct1,
             rule_format, OF s5]
    by simp
  have 6: "Authenticate_attrEntry lib0 (UserClaims_zero, fx0)
       \<lparr>attr_Name = ''http://claims.example.com/SAML/Attributes/Role'',
        Values = [AttributeValue ''admin'', AttributeValue ''user'']\<rparr>
     = (UserClaims_zero\<lparr>Roles := [''admin'', ''user'']\<rparr>, fx0)"
    using T [where n = "''http://claims.example.com/SAML/Attributes/Role''"
               and vs = "[AttributeValue ''admin'', AttributeValue ''user'']",
             THEN conjunct2, THEN conjunct2, THEN conjunct2, THEN conjunct2, THEN conjunct2,
             THEN conjunct1, rule_format, OF s6]
    by (simp add: UserClaims_zero_def)
  from 1 2 3 4 5 6 show ?thesis by blast
qed

text \<open>
  Claim C6. When the request passes the three checks and a binding returns an assertion
  (the bindings before it having failed), and the claims built from all the attribute
  statements of that assertion have an empty email or an empty name, \<open>Authenticate\<close>
  returns the error "mandatory attributes not found" followed by the rendering of those
  claims, whatever the other fields of the claims are. The result is an error: there is
  no user and no token.
\<close>

theorem C6_mandatory_attributes:
  assumes "Header_Get r ''Content-Type'' = ''application/x-www-form-urlencoded''"
    and "FormValue r ''SAMLResponse'' \<noteq> []"
    and "DecodeString L (FormValue r ''SAMLResponse'') = Inr raw"
    and "ServiceProviders az = pre @ sp # post"
    and "\<forall>p\<in>set pre. isl (ParseXMLResponse L p raw [[]])"
    and "ParseXMLResponse L sp raw [[]] = Inr a"
    and "claims = fst (Authenticate_attributes L a
                         (Authenticate_newClaims L (fx\<lparr>parse_calls := parse_calls fx @ pre @ [sp]\<rparr>)))"
    and "Email claims = [] \<or> Name claims = []"
  shows "fst (AzureIdp_Authenticate L (Some az) r fx)
           = Done (Inl (''The Azure AD authorization failed, mandatory attributes not found: ''
                          @ sprint_claims L claims))"
  using assms
  by (auto simp add: AzureIdp_Authenticate_def Let_def serviceProviders_first_success
        Authenticate_assertion_def)

theorem C6_mandatory_attributes_witness:
  "fst (AzureIdp_Authenticate lib_noemail (Some az1) req0 fx0)
     = Done (Inl ''The Azure AD authorization failed, mandatory attributes not found: {John Doe }'')"
proof -
  have 1: "Header_Get req0 ''Content-Type'' = ''application/x-www-form-urlencoded''"
    by (simp add: Header_Get_def req0_def)
  have 2: "FormValue req0 ''SAMLResponse'' \<noteq> []"
    by (simp add: FormValue_def req0_def)
  have 3: "DecodeString lib_noemail (FormValue req0 ''SAMLResponse'') = Inr ''<Response/>''"
    by (simp add: FormValue_def req0_def lib_noemail_def lib0_def)
  have 4: "ServiceProviders az1 = [] @ sp1 # [sp2, sp3]"
    by (simp add: az1_def)
  have 5: "\<forall>p\<in>set []. isl (ParseXMLResponse lib_noemail p ''<Response/>'' [[]])"
    by simp
  have 6: "ParseXMLResponse lib_noemail sp1 ''<Response/>'' [[]] = Inr assertion_noemail"
    by (simp add: lib_noemail_def)
  have 7: "fst (Authenticate_attributes lib_noemail assertion_noemail
                 (Authenticate_newClaims lib_noemail (fx0\<lparr>parse_calls := parse_calls fx0 @ [] @ [sp1]\<rparr>)))
            = \<lparr>ExpiresAt = 1600000900, Issuer = [], Subject = [], Name = ''John Doe'',
               Email = [], Roles = [''admin''], Origin = []\<rparr>"
    by (simp add: Authenticate_attributes_def Authenticate_newClaims_def Authenticate_attrEntry_def
          assertion_noemail_def lib_noemail_def lib0_def fx0_def HasSuffix_def UserClaims_zero_def
          Time_Add_def Time_Unix_def Second_def)
  have 8: "Email \<lparr>ExpiresAt = 1600000900, Issuer = [], Subject = [], Name = ''John Doe'',
               Email = [], Roles = [''admin''], Origin = []\<rparr> = []
           \<or> Name \<lparr>ExpiresAt = 1600000900, Issuer = [], Subject = [], Name = ''John Doe'',
               Email = [], Roles = [''admin''], Origin = []\<rparr> = []"
    by simp
  show ?thesis
    using C6_mandatory_attributes [OF 1 2 3 4 5 6 7[symmetric] 8]
    by (simp add: lib_noemail_def lib0_def)
qed

subsection \<open>The expiry\<close>

lemma seconds_in_range:
  fixes N :: "64 word"
  assumes "- 9223372036 \<le> sint N" and "sint N \<le> 9223372036"
  shows "sint (N * Second) = sint N * 1000000000"
proof -
  have "sint (N * Second) = signed_take_bit 63 (sint N * 1000000000)"
    by (simp add: Second_def sint_word_ariths)
  also have "\<dots> = sint N * 1000000000"
    using assms by (intro signed_take_bit_int_eq_self) simp_all
  finally show ?thesis .
qed

lemma Unix_Add_seconds:
  fixes N :: "64 word"
  assumes "- 9223372036 \<le> sint N" and "sint N \<le> 9223372036"
  shows "Time_Unix (Time_Add t (N * Second)) = Time_Unix t + sint N"
  by (simp add: Time_Unix_def Time_Add_def seconds_in_range[OF assms])

lemma Unix_Add_900: "Time_Unix (Time_Add t (900 * Second)) = Time_Unix t + 900"
  using Unix_Add_seconds[of 900 t] by simp

lemma Atoi_3600: "Atoi ''3600'' = Inr 3600"
  by (simp add: Atoi_def isDigit_def digitVal_def)

lemma Atoi_big: "Atoi ''9223372037'' = Inr 9223372037"
  by (simp add: Atoi_def isDigit_def digitVal_def)

text \<open>
  What the scan over all attribute statements does to the expiry. Every attribute that
  sets the expiry reads the clock once more; the last of them decides, with the reading
  taken when it is processed. When there is none, the expiry stays at the first reading
  plus 900 seconds.
\<close>

lemma attributes_flat:
  "Authenticate_attributes L a st
     = foldl (Authenticate_attrEntry L) st (concat (map Attributes (AttributeStatements a)))"
proof -
  have "foldl (\<lambda>st s. foldl (Authenticate_attrEntry L) st (Attributes s)) st ss
          = foldl (Authenticate_attrEntry L) st (concat (map Attributes ss))"
    for ss :: "AttributeStatement list"
    by (induction ss arbitrary: st) simp_all
  then show ?thesis by (simp add: Authenticate_attributes_def)
qed

lemma attrEntry_reads:
  assumes "readsDuration attr" and "Atoi (Value (Values attr ! 0)) = Inr N"
  shows "Authenticate_attrEntry L (claims, fx) attr
           = (claims\<lparr>ExpiresAt := Time_Unix (Time_Add (now L (clock_reads fx)) (N * Second))\<rparr>,
              fx\<lparr>clock_reads := Suc (clock_reads fx)\<rparr>)"
  using assms by (simp add: readsDuration_def Authenticate_attrEntry_def)

lemma attrEntry_other:
  assumes "\<not> readsDuration attr"
  shows "ExpiresAt (fst (Authenticate_attrEntry L st attr)) = ExpiresAt (fst st)"
    and "clock_reads (snd (Authenticate_attrEntry L st attr)) = clock_reads (snd st)"
  using assms
  by (auto simp: readsDuration_def Authenticate_attrEntry_def Let_def Roles_foldl
        split: sum.splits)

lemma attrEntry_clock:
  "clock_reads (snd (Authenticate_attrEntry L st attr))
     = clock_reads (snd st) + (if readsDuration attr then 1 else 0)"
proof (cases "readsDuration attr")
  case True
  then obtain N where "Atoi (Value (Values attr ! 0)) = Inr N"
    by (cases "Atoi (Value (Values attr ! 0))") (auto simp: readsDuration_def)
  from attrEntry_reads[OF True this, of L "fst st" "snd st"] True show ?thesis by simp
next
  case False
  then show ?thesis by (simp add: attrEntry_other)
qed

lemma attrs_clock:
  "clock_reads (snd (foldl (Authenticate_attrEntry L) st as))
     = clock_reads (snd st) + length (filter readsDuration as)"
  by (induction as arbitrary: st) (simp_all add: attrEntry_clock)

lemma attrs_other:
  assumes "\<forall>x\<in>set as. \<not> readsDuration x"
  shows "ExpiresAt (fst (foldl (Authenticate_attrEntry L) st as)) = ExpiresAt (fst st)"
  using assms by (induction as arbitrary: st) (simp_all add: attrEntry_other)

lemma newClaims_clock:
  "clock_reads (snd (Authenticate_newClaims L fx)) = Suc (clock_reads fx)"
  by (simp add: Authenticate_newClaims_def)

lemma scan_expiry:
  assumes "concat (map Attributes (AttributeStatements a)) = pre @ d # post"
    and "readsDuration d"
    and "Atoi (Value (Values d ! 0)) = Inr N"
    and "\<forall>x\<in>set post. \<not> readsDuration x"
  shows "ExpiresAt (fst (Authenticate_attributes L a (Authenticate_newClaims L fx)))
           = Time_Unix (Time_Add (now L (Suc (clock_reads fx) + length (filter readsDuration pre)))
                          (N * Second))"
proof -
  let ?st = "foldl (Authenticate_attrEntry L) (Authenticate_newClaims L fx) pre"
  have k: "clock_reads (snd ?st) = Suc (clock_reads fx) + length (filter readsDuration pre)"
    by (simp add: attrs_clock newClaims_clock)
  have "Authenticate_attrEntry L ?st d
          = ((fst ?st)\<lparr>ExpiresAt := Time_Unix (Time_Add (now L (clock_reads (snd ?st))) (N * Second))\<rparr>,
             (snd ?st)\<lparr>clock_reads := Suc (clock_reads (snd ?st))\<rparr>)"
    using attrEntry_reads[OF assms(2,3), of L "fst ?st" "snd ?st"] by simp
  then have "ExpiresAt (fst (Authenticate_attrEntry L ?st d))
               = Time_Unix (Time_Add (now L (clock_reads (snd ?st))) (N * Second))"
    by simp
  moreover have "Authenticate_attributes L a (Authenticate_newClaims L fx)
                   = foldl (Authenticate_attrEntry L) (Authenticate_attrEntry L ?st d) post"
    by (simp add: attributes_flat assms(1))
  ultimately show ?thesis
    using attrs_other[OF assms(4)] k by simp
qed

lemma scan_expiry_in_range:
  assumes "concat (map Attributes (AttributeStatements a)) = pre @ d # post"
    and "readsDuration d"
    and "Atoi (Value (Values d ! 0)) = Inr N"
    and "\<forall>x\<in>set post. \<not> readsDuration x"
    and "- 9223372036 \<le> sint N" and "sint N \<le> 9223372036"
  shows "ExpiresAt (fst (Authenticate_attributes L a (Authenticate_newClaims L fx)))
           = Time_Unix (now L (Suc (clock_reads fx) + length (filter readsDuration pre))) + sint N"
  using scan_expiry[OF assms(1-4)] Unix_Add_seconds[OF assms(5,6)] by simp

lemma scan_default:
  assumes "\<forall>s\<in>set (AttributeStatements a). \<forall>x\<in>set (Attributes s). \<not> readsDuration x"
  shows "ExpiresAt (fst (Authenticate_attributes L a (Authenticate_newClaims L fx)))
           = Time_Unix (now L (clock_reads fx)) + 900"
proof -
  from assms have "\<forall>x\<in>set (concat (map Attributes (AttributeStatements a))). \<not> readsDuration x"
    by auto
  from attrs_other[OF this] show ?thesis
    by (simp add: attributes_flat Authenticate_newClaims_def Unix_Add_900)
qed

text \<open>The example assertions, on the clock that moves.\<close>

lemma eval_scan_long:
  "Authenticate_attributes lib_long assertion_long (Authenticate_newClaims lib_long fx0)
     = (claims_long, fx0\<lparr>clock_reads := 2\<rparr>)"
  by (simp add: Authenticate_attributes_def Authenticate_newClaims_def
        Authenticate_attrEntry_def lib_long_def lib0_def assertion_long_def fx0_def claims0_def
        claims_long_def Atoi_big
        HasSuffix_def Let_def UserClaims_zero_def
        Time_Add_def Time_Unix_def Second_def)

lemma eval_scan_3600:
  "ExpiresAt (fst (Authenticate_attributes lib_long assertion0 (Authenticate_newClaims lib_long fx0)))
     = 1600003602"
  by (simp add: Authenticate_attributes_def Authenticate_newClaims_def
        Authenticate_attrEntry_def lib_long_def lib0_def assertion0_def fx0_def Atoi_3600
        HasSuffix_def Let_def UserClaims_zero_def
        Time_Add_def Time_Unix_def Second_def)

lemma eval_Authenticate_long:
  "fst (AzureIdp_Authenticate (lib_long\<lparr>SignedString := sign\<rparr>) (Some az1) req0 fx0)
     = Done (case sign (claims_long\<lparr>Issuer := ''localhost''\<rparr>) ''0e2fdcf8'' of
               Inl err \<Rightarrow> Inl (''Failed to issue JWT token with {John Doe jdoe@example.com} claims: '' @ err)
             | Inr validToken \<Rightarrow> Inr (user0, validToken))"
  by (simp add: AzureIdp_Authenticate_def Authenticate_assertion_def Authenticate_attributes_def
        Authenticate_newClaims_def Authenticate_attrEntry_def Header_Get_def FormValue_def
        req0_def lib_long_def lib0_def az1_def az0_def jwt0_def
        sp1_def assertion_long_def fx0_def user0_def claims0_def claims_long_def HasSuffix_def
        Atoi_big Let_def UserClaims_zero_def Time_Add_def Time_Unix_def
        Second_def split: sum.splits)

text \<open>
  Claim C5 says that a MaxSessionDuration with the numeric value \<open>N\<close> sets the expiry to
  the issuance time plus \<open>N\<close> seconds. The code does so for \<open>3600\<close>: the expiry is the
  second clock reading (the one taken when the attribute is processed) plus 3600. For
  \<open>9223372037\<close>, a decimal integer that \<open>Atoi\<close> accepts, it does not: that many seconds
  are more nanoseconds than an \<open>int64\<close> holds, the product
  \<open>time.Duration(multiplier) * time.Second\<close> wraps to a negative duration, and the scan
  ends with an expiry of \<open>-7623372035\<close>, in the year 1728, instead of the reading plus
  \<open>9223372037\<close>. \<open>Authenticate\<close> hands these claims to the signer and returns the
  token it makes.
\<close>

theorem C5_duration_overflow:
  "Atoi ''9223372037'' = Inr 9223372037
   \<and> sint (9223372037 :: go_int) = 9223372037
   \<and> Time_Unix (now lib_long 1) = 1600000002
   \<and> Authenticate_attributes lib_long assertion_long (Authenticate_newClaims lib_long fx0)
       = (claims_long, fx0\<lparr>clock_reads := 2\<rparr>)
   \<and> ExpiresAt claims_long = - 7623372035
   \<and> ExpiresAt claims_long \<noteq> Time_Unix (now lib_long 1) + 9223372037
   \<and> fst (AzureIdp_Authenticate (lib_long\<lparr>SignedString := sign\<rparr>) (Some az1) req0 fx0)
       = Done (case sign (claims_long\<lparr>Issuer := ''localhost''\<rparr>) ''0e2fdcf8'' of
                 Inl err \<Rightarrow> Inl (''Failed to issue JWT token with {John Doe jdoe@example.com} claims: '' @ err)
               | Inr validToken \<Rightarrow> Inr (user0, validToken))
   \<and> ExpiresAt (fst (Authenticate_attributes lib_long assertion0 (Authenticate_newClaims lib_long fx0)))
       = Time_Unix (now lib_long 1) + 3600"
proof -
  have 1: "sint (9223372037 :: go_int) = 9223372037" by simp
  have 2: "Time_Unix (now lib_long 1) = 1600000002"
    by (simp add: Time_Unix_def lib_long_def)
  have 3: "ExpiresAt claims_long = - 7623372035"
    by (simp add: claims_long_def)
  have 4: "ExpiresAt claims_long \<noteq> Time_Unix (now lib_long 1) + 9223372037"
    unfolding 2 3 by simp
  have 5: "ExpiresAt (fst (Authenticate_attributes lib_long assertion0 (Authenticate_newClaims lib_long fx0)))
       = Time_Unix (now lib_long 1) + 3600"
    unfolding 2 eval_scan_3600 by simp
  from Atoi_big 1 2 eval_scan_long 3 4 eval_Authenticate_long 5 show ?thesis by blast
qed

section \<open>Properties of configuration validation\<close>

text \<open>The example configuration validates.\<close>

lemma eval_Validate_az0_Jwt:
  "AzureIdp_Validate lib0 [] (az0\<lparr>Jwt := j\<rparr>)
     = Done (None, az0_validated\<lparr>Jwt := j\<rparr>, store0_validated)"
  by (simp add: AzureIdp_Validate_def Validate_azureOptions_def Validate_acsURL_def az0_def
        az0_validated_def store0_validated_def keyDescriptor0_def lib0_def sp1_def sp2_def
        metadata_location0_def HasPrefix_def store_alloc_def store_get_def Let_def)

lemma eval_Validate_az0:
  "AzureIdp_Validate lib0 [] az0 = Done (None, az0_validated, store0_validated)"
  using eval_Validate_az0_Jwt [of "Jwt az0"] by (simp add: az0_validated_def az0_def)

lemma eval_UserInterface_validate:
  "UserInterface_validate lib0 UserInterface_zero = (None, ui0_validated)"
  by (simp add: UserInterface_validate_def loadTemplates_def UserInterface_zero_def
        ui0_validated_def lib0_def)

lemma eval_Validate_m0:
  "AuthProvider_Validate lib0 [] m0 = Done (None, m0_validated, store0_validated)"
proof -
  have "Getenv lib0 ''JWT_TOKEN_SECRET'' \<noteq> []"
    by (simp add: lib0_def)
  then show ?thesis
    using eval_Validate_az0_Jwt [of jwt0_validated] eval_UserInterface_validate
    by (simp add: AuthProvider_Validate_def m0_def m0_validated_def jwt0_validated_def
          az0_ready_def az0_validated_def ui0_validated_def UserInterface_zero_def Let_def)
qed

subsection \<open>The loop over the ACS URLs\<close>

lemma acsURL_Panic: "Validate_acsURL L opts cert Panic url = Panic"
  by (simp add: Validate_acsURL_def)

lemma acs_loop_Panic: "foldl (Validate_acsURL L opts cert) Panic urls = Panic"
  by (induction urls) (simp_all add: acsURL_Panic)

lemma acsURL_Done:
  assumes "Validate_acsURL L opts cert (Done (az, h)) url = Done (az', h')"
  shows "\<exists>sp. az' = az\<lparr>ServiceProviders := ServiceProviders az @ [sp]\<rparr>
              \<and> (case IdpMetadataURL az of
                    Some u \<Rightarrow> MetadataURL sp = u
                  | None \<Rightarrow> url_Parse L (EntityID az) = Inr (MetadataURL sp))"
  using assms[symmetric]
  by (auto simp: Validate_acsURL_def Let_def split: sum.splits option.splits list.splits)

lemma acs_loop_Done:
  assumes "foldl (Validate_acsURL L opts cert) (Done (az, h)) urls = Done (az', h')"
  shows "\<exists>new. az' = az\<lparr>ServiceProviders := ServiceProviders az @ new\<rparr>
              \<and> length new = length urls
              \<and> (\<forall>sp\<in>set new. case IdpMetadataURL az of
                    Some u \<Rightarrow> MetadataURL sp = u
                  | None \<Rightarrow> url_Parse L (EntityID az) = Inr (MetadataURL sp))"
  using assms
proof (induction urls arbitrary: az h)
  case Nil
  then show ?case by simp
next
  case (Cons url urls)
  show ?case
  proof (cases "Validate_acsURL L opts cert (Done (az, h)) url")
    case Panic
    with Cons.prems show ?thesis by (simp add: acs_loop_Panic)
  next
    case (Done st)
    obtain az'' h'' where st: "st = (az'', h'')" by (cases st)
    from acsURL_Done[OF Done[unfolded st]] obtain sp where
      az'': "az'' = az\<lparr>ServiceProviders := ServiceProviders az @ [sp]\<rparr>"
      and sp: "case IdpMetadataURL az of
                    Some u \<Rightarrow> MetadataURL sp = u
                  | None \<Rightarrow> url_Parse L (EntityID az) = Inr (MetadataURL sp)" by blast
    from Cons.prems Done st
    have "foldl (Validate_acsURL L opts cert) (Done (az'', h'')) urls = Done (az', h')" by simp
    from Cons.IH[OF this] obtain new where
      new: "az' = az''\<lparr>ServiceProviders := ServiceProviders az'' @ new\<rparr>"
        "length new = length urls"
        "\<forall>sp\<in>set new. case IdpMetadataURL az'' of
                    Some u \<Rightarrow> MetadataURL sp = u
                  | None \<Rightarrow> url_Parse L (EntityID az'') = Inr (MetadataURL sp)" by blast
    have "az' = az\<lparr>ServiceProviders := ServiceProviders az @ (sp # new)\<rparr>"
      using new(1) az'' by simp
    moreover have "length (sp # new) = length (url # urls)" using new(2) by simp
    moreover have "\<forall>sp\<in>set (sp # new). case IdpMetadataURL az of
                    Some u \<Rightarrow> MetadataURL sp = u
                  | None \<Rightarrow> url_Parse L (EntityID az) = Inr (MetadataURL sp)"
    proof -
      have "IdpMetadataURL az'' = IdpMetadataURL az" "EntityID az'' = EntityID az"
        by (simp_all add: az'')
      then show ?thesis using new(3) sp by (auto split: option.splits)
    qed
    ultimately show ?thesis by blast
  qed
qed


lemma default_location_http:
  "HasPrefix (''https://login.microsoftonline.com/'' @ x) ''http''"
  by (simp add: HasPrefix_def)

lemma azureOptions_Inr:
  assumes "Validate_azureOptions L h az = Inr (az', h', opts)"
  shows "if HasPrefix (IdpMetadataLocation az) ''http''
         then \<exists>u. url_Parse L (IdpMetadataLocation az) = Inr u \<and> az' = az\<lparr>IdpMetadataURL := Some u\<rparr>
         else az' = az"
  using assms[symmetric]
  by (auto simp: Validate_azureOptions_def split: if_splits sum.splits)

lemma AzureIdp_Validate_Done:
  assumes "AzureIdp_Validate L h az = Done (None, az', h')"
  shows "\<exists>cert azl azm hm opts.
           azl = (if IdpMetadataLocation az = [] then
                     az\<lparr>IdpMetadataLocation :=
                         ''https://login.microsoftonline.com/'' @ TenantID az
                           @ ''/federationmetadata/2007-06/federationmetadata.xml''\<rparr>
                   else az)
           \<and> Validate_azureOptions L h
               (azl\<lparr>LoginURL :=
                          ''https://account.activedirectory.windowsazure.com/applications/signin/''
                            @ ApplicationName azl @ ''/'' @ ApplicationID azl
                            @ ''?tenantId='' @ TenantID azl\<rparr>) = Inr (azm, hm, opts)
           \<and> foldl (Validate_acsURL L opts cert) (Done (azm, hm)) (AssertionConsumerServiceURLs azm)
               = Done (az', h')"
  using assms[symmetric]
  by (simp add: AzureIdp_Validate_def Let_def
        split: if_splits sum.splits outcome.splits prod.splits; blast)

lemma AzureIdp_Validate_bindings:
  assumes "AzureIdp_Validate L h az = Done (None, az', h')"
  shows "(\<exists>new. ServiceProviders az' = ServiceProviders az @ new
              \<and> length new = length (AssertionConsumerServiceURLs az)
              \<and> (\<forall>sp\<in>set new. case IdpMetadataURL az' of
                    Some u \<Rightarrow> MetadataURL sp = u
                  | None \<Rightarrow> url_Parse L (EntityID az) = Inr (MetadataURL sp)))
         \<and> (if HasPrefix (IdpMetadataLocation az') ''http''
               then \<exists>u. url_Parse L (IdpMetadataLocation az') = Inr u \<and> IdpMetadataURL az' = Some u
               else IdpMetadataURL az' = IdpMetadataURL az)
         \<and> Jwt az' = Jwt az"
proof -
  from AzureIdp_Validate_Done[OF assms] obtain cert azl azm hm opts where
    azl: "azl = (if IdpMetadataLocation az = [] then
                     az\<lparr>IdpMetadataLocation :=
                         ''https://login.microsoftonline.com/'' @ TenantID az
                           @ ''/federationmetadata/2007-06/federationmetadata.xml''\<rparr>
                   else az)"
    and opts: "Validate_azureOptions L h
               (azl\<lparr>LoginURL :=
                          ''https://account.activedirectory.windowsazure.com/applications/signin/''
                            @ ApplicationName azl @ ''/'' @ ApplicationID azl
                            @ ''?tenantId='' @ TenantID azl\<rparr>) = Inr (azm, hm, opts)"
    and loop: "foldl (Validate_acsURL L opts cert) (Done (azm, hm)) (AssertionConsumerServiceURLs azm)
               = Done (az', h')"
    by blast
  have l: "ServiceProviders azl = ServiceProviders az" "EntityID azl = EntityID az"
    "Jwt azl = Jwt az" "IdpMetadataURL azl = IdpMetadataURL az"
    "AssertionConsumerServiceURLs azl = AssertionConsumerServiceURLs az"
    by (simp_all add: azl)
  have m: "ServiceProviders azm = ServiceProviders az" "EntityID azm = EntityID az"
    "Jwt azm = Jwt az" "AssertionConsumerServiceURLs azm = AssertionConsumerServiceURLs az"
    and mu: "if HasPrefix (IdpMetadataLocation azm) ''http''
             then \<exists>u. url_Parse L (IdpMetadataLocation azm) = Inr u \<and> IdpMetadataURL azm = Some u
             else IdpMetadataURL azm = IdpMetadataURL az"
    using azureOptions_Inr[OF opts] l by (auto split: if_splits)
  from acs_loop_Done[OF loop] obtain new where
    new: "az' = azm\<lparr>ServiceProviders := ServiceProviders azm @ new\<rparr>"
      "length new = length (AssertionConsumerServiceURLs azm)"
      "\<forall>sp\<in>set new. case IdpMetadataURL azm of
                    Some u \<Rightarrow> MetadataURL sp = u
                  | None \<Rightarrow> url_Parse L (EntityID azm) = Inr (MetadataURL sp)" by blast
  have eqs: "IdpMetadataURL az' = IdpMetadataURL azm" "IdpMetadataLocation az' = IdpMetadataLocation azm"
    "Jwt az' = Jwt az" "ServiceProviders az' = ServiceProviders az @ new"
    by (simp_all add: new(1) m)
  show ?thesis
    using eqs m(2,4) mu new(2,3) by (auto split: option.splits if_splits)
qed

text \<open>
  Claim C4, as the code has it. After a successful validation one binding has been added
  for each ACS URL, and the metadata URL of each of them is the IdP metadata URL whenever
  \<open>IdpMetadataURL\<close> is set, whatever the entity ID is; it is the parsed entity ID only
  when \<open>IdpMetadataURL\<close> is nil. \<open>IdpMetadataURL\<close> is set (to the parsed metadata
  location) whenever the metadata location starts with \<open>http\<close>, as the default location
  does; with any other location (a local file) validation leaves it as it was.
\<close>

theorem C4_metadata_url:
  assumes "AzureIdp_Validate L h az = Done (None, az', h')"
  shows "(\<exists>new. ServiceProviders az' = ServiceProviders az @ new
              \<and> length new = length (AssertionConsumerServiceURLs az)
              \<and> (\<forall>sp\<in>set new. case IdpMetadataURL az' of
                    Some u \<Rightarrow> MetadataURL sp = u
                  | None \<Rightarrow> url_Parse L (EntityID az) = Inr (MetadataURL sp)))
         \<and> (if HasPrefix (IdpMetadataLocation az') ''http''
               then \<exists>u. url_Parse L (IdpMetadataLocation az') = Inr u \<and> IdpMetadataURL az' = Some u
               else IdpMetadataURL az' = IdpMetadataURL az)"
  using AzureIdp_Validate_bindings[OF assms] by blast

lemma eval_Validate_az0_file:
  "AzureIdp_Validate lib0 [] az0_file
     = Done (None,
             az0_file\<lparr>ServiceProviders :=
                        [sp1\<lparr>MetadataURL := URL ''urn:caddy:mygatekeeper''\<rparr>,
                         sp2\<lparr>MetadataURL := URL ''urn:caddy:mygatekeeper''\<rparr>],
                      LoginURL := LoginURL az0_validated\<rparr>,
             store0_validated)"
  by (simp add: AzureIdp_Validate_def Validate_azureOptions_def Validate_acsURL_def az0_def
        az0_file_def az0_validated_def
        store0_validated_def keyDescriptor0_def lib0_def sp1_def sp2_def metadata_location0_def
        HasPrefix_def store_alloc_def store_get_def Let_def URL_zero_def)

theorem C4_metadata_url_witness:
  "map MetadataURL (ServiceProviders az0_validated) = [URL metadata_location0, URL metadata_location0]
   \<and> IdpMetadataURL az0_validated = Some (URL metadata_location0)
   \<and> map_option (map MetadataURL \<circ> ServiceProviders \<circ> fst \<circ> snd)
        (returned (AzureIdp_Validate lib0 [] az0_file))
       = Some [URL ''urn:caddy:mygatekeeper'', URL ''urn:caddy:mygatekeeper'']"
  using C4_metadata_url [OF eval_Validate_az0] C4_metadata_url [OF eval_Validate_az0_file]
    eval_Validate_az0_file
  by (simp add: returned_def az0_validated_def sp1_def sp2_def)

text \<open>
  Claim C4 as stated fails on the example configuration: the entity ID is set and parses
  as a URL, the metadata location is the default one, and both bindings get the metadata
  location as their metadata URL, not the entity ID.
\<close>

theorem C4_counterexample:
  "EntityID az0 = ''urn:caddy:mygatekeeper''
   \<and> url_Parse lib0 (EntityID az0) = Inr (URL ''urn:caddy:mygatekeeper'')
   \<and> AzureIdp_Validate lib0 [] az0 = Done (None, az0_validated, store0_validated)
   \<and> map MetadataURL (ServiceProviders az0_validated)
       = [URL metadata_location0, URL metadata_location0]
   \<and> URL metadata_location0 \<noteq> URL ''urn:caddy:mygatekeeper''"
proof -
  have 1: "EntityID az0 = ''urn:caddy:mygatekeeper''"
    by (simp add: az0_def)
  have 2: "url_Parse lib0 (EntityID az0) = Inr (URL ''urn:caddy:mygatekeeper'')"
    by (simp add: az0_def lib0_def)
  have 3: "map MetadataURL (ServiceProviders az0_validated)
             = [URL metadata_location0, URL metadata_location0]"
    by (simp add: az0_validated_def sp1_def sp2_def)
  have 4: "URL metadata_location0 \<noteq> URL ''urn:caddy:mygatekeeper''"
    by (simp add: metadata_location0_def)
  from 1 2 eval_Validate_az0 3 4 show ?thesis by blast
qed


section \<open>The signing key\<close>

text \<open>A token that \<open>Authenticate\<close> returns is what \<open>SignedString\<close> made with the configured secret as key.\<close>

lemma assertion_token:
  assumes "fst (Authenticate_assertion L az a fx) = Inr (u, tok)"
  shows "\<exists>claims. SignedString L claims (TokenSecret (Jwt az)) = Inr tok"
  using assms
  by (auto simp: Authenticate_assertion_def Let_def split: if_splits sum.splits)

lemma serviceProviders_token:
  assumes "fst (Authenticate_serviceProviders L az raw sps errs fx) = Inr (u, tok)"
  shows "\<exists>claims. SignedString L claims (TokenSecret (Jwt az)) = Inr tok"
  using assms
proof (induction sps arbitrary: errs fx)
  case Nil
  then show ?case by simp
next
  case (Cons p sps)
  show ?case
  proof (cases "ParseXMLResponse L p raw [[]]")
    case (Inl e)
    with Cons show ?thesis by simp
  next
    case (Inr a)
    with Cons.prems show ?thesis by (simp add: assertion_token)
  qed
qed

lemma Authenticate_token:
  assumes "fst (AzureIdp_Authenticate L (Some az) r fx) = Done (Inr (u, tok))"
  shows "\<exists>claims. SignedString L claims (TokenSecret (Jwt az)) = Inr tok"
  using assms
  by (auto simp: AzureIdp_Authenticate_def Let_def serviceProviders_token
        split: if_splits sum.splits)

text \<open>\<open>Authenticate\<close> does not read the environment.\<close>

lemma attrEntry_Getenv:
  "Authenticate_attrEntry (L\<lparr>Getenv := g\<rparr>) = Authenticate_attrEntry L"
  by (intro ext) (simp add: Authenticate_attrEntry_def Let_def split: sum.splits)

lemma assertion_Getenv:
  "Authenticate_assertion (L\<lparr>Getenv := g\<rparr>) = Authenticate_assertion L"
  by (intro ext)
     (simp add: Authenticate_assertion_def Authenticate_attributes_def
        Authenticate_newClaims_def attrEntry_Getenv Let_def split: sum.splits)

lemma serviceProviders_Getenv:
  "Authenticate_serviceProviders (L\<lparr>Getenv := g\<rparr>) az raw sps errs fx
     = Authenticate_serviceProviders L az raw sps errs fx"
  by (induction sps arbitrary: errs fx)
     (simp_all add: assertion_Getenv Let_def split: sum.splits)

lemma Authenticate_Getenv:
  "AzureIdp_Authenticate (L\<lparr>Getenv := g\<rparr>) azp r fx = AzureIdp_Authenticate L azp r fx"
  by (simp add: AzureIdp_Authenticate_def serviceProviders_Getenv Let_def
        split: sum.splits option.splits)

section \<open>The token secret\<close>

text \<open>
  Claim C9. Take a configuration whose token secret is empty, in an environment where
  \<open>JWT_TOKEN_SECRET\<close> is set, and whose other parts are valid: the authentication path
  is not empty, there is an Azure section that validates (with the plugin's token
  parameters, defaults filled in, copied into it), and the user interface validates.
  Then \<open>AuthProvider.Validate\<close> succeeds, and the secret of the validated Azure section
  is still empty. Take then a request that passes the three checks, that one of the
  validated bindings accepts (the ones before it having failed), and whose claims have an
  email and a name. Whatever the environment holds, \<open>Authenticate\<close> calls
  \<open>SignedString\<close> with these claims and the empty key, and its result is what the signer
  returns: the user and the token when the signer makes one, the signer's error when it
  fails. There is no other check of the secret, and the variable is never read.
\<close>

theorem C9_env_secret_never_read:
  assumes "TokenSecret (Jwt m) = []"
    and "Getenv L ''JWT_TOKEN_SECRET'' \<noteq> []"
    and "AuthURLPath m \<noteq> []"
    and "Azure m = Some az"
    and "AzureIdp_Validate L h
           (az\<lparr>Jwt := \<lparr>TokenName = (if TokenName (Jwt m) = [] then ''JWT_TOKEN''
                                     else TokenName (Jwt m)),
                        TokenSecret = [],
                        TokenIssuer = (if TokenIssuer (Jwt m) = [] then ''localhost''
                                       else TokenIssuer (Jwt m))\<rparr>\<rparr>)
           = Done (None, az', h')"
    and "UserInterface_validate L (case UI m of None \<Rightarrow> UserInterface_zero | Some ui \<Rightarrow> ui)
           = (None, ui')"
    and "Header_Get r ''Content-Type'' = ''application/x-www-form-urlencoded''"
    and "FormValue r ''SAMLResponse'' \<noteq> []"
    and "DecodeString L (FormValue r ''SAMLResponse'') = Inr raw"
    and "ServiceProviders az' = pre @ sp # post"
    and "\<forall>p\<in>set pre. isl (ParseXMLResponse L p raw [[]])"
    and "ParseXMLResponse L sp raw [[]] = Inr a"
    and "claims = fst (Authenticate_attributes L a
                         (Authenticate_newClaims L (fx\<lparr>parse_calls := parse_calls fx @ pre @ [sp]\<rparr>)))"
    and "Email claims \<noteq> []"
    and "Name claims \<noteq> []"
    and "issued = (if TokenIssuer (Jwt az') \<noteq> []
                   then claims\<lparr>Issuer := TokenIssuer (Jwt az')\<rparr> else claims)"
  shows "(\<exists>m'. AuthProvider_Validate L h m = Done (None, m', h') \<and> Azure m' = Some az')
         \<and> TokenSecret (Jwt az') = []
         \<and> (\<forall>g. fst (AzureIdp_Authenticate (L\<lparr>Getenv := g\<rparr>) (Some az') r fx)
                  = Done (case SignedString L issued [] of
                            Inl err \<Rightarrow>
                              Inl (''Failed to issue JWT token with '' @ sprint_claims L issued
                                     @ '' claims: '' @ err)
                          | Inr validToken \<Rightarrow>
                              Inr (\<lparr>ID = Email claims,
                                    Metadata = [''name'' \<mapsto> Name claims, ''email'' \<mapsto> Email claims,
                                                ''roles'' \<mapsto> Join (Roles claims) '' '']\<rparr>,
                                   validToken)))"
proof -
  have secret: "TokenSecret (Jwt az') = []"
    using AzureIdp_Validate_bindings[OF assms(5)] by simp
  obtain tn ti where j: "Jwt m = \<lparr>TokenName = tn, TokenSecret = [], TokenIssuer = ti\<rparr>"
    using assms(1) by (cases "Jwt m") auto
  have valid: "\<exists>m'. AuthProvider_Validate L h m = Done (None, m', h') \<and> Azure m' = Some az'"
    using assms(2-6) j
    by (cases "tn = []"; cases "ti = []") (simp_all add: AuthProvider_Validate_def Let_def)
  have "AzureIdp_Authenticate L (Some az') r fx
          = (Done (fst (Authenticate_assertion L az' a
                          (fx\<lparr>parse_calls := parse_calls fx @ pre @ [sp]\<rparr>))),
             snd (Authenticate_assertion L az' a
                    (fx\<lparr>parse_calls := parse_calls fx @ pre @ [sp]\<rparr>)))"
    using assms(7-12)
    by (simp add: AzureIdp_Authenticate_def Let_def serviceProviders_first_success)
  moreover have "fst (Authenticate_assertion L az' a (fx\<lparr>parse_calls := parse_calls fx @ pre @ [sp]\<rparr>))
          = (case SignedString L issued [] of
                            Inl err \<Rightarrow>
                              Inl (''Failed to issue JWT token with '' @ sprint_claims L issued
                                     @ '' claims: '' @ err)
                          | Inr validToken \<Rightarrow>
                              Inr (\<lparr>ID = Email claims,
                                    Metadata = [''name'' \<mapsto> Name claims, ''email'' \<mapsto> Email claims,
                                                ''roles'' \<mapsto> Join (Roles claims) '' '']\<rparr>,
                                   validToken))"
    using assms(13-16) secret
    by (auto simp: Authenticate_assertion_def Let_def split: sum.splits)
  ultimately have "fst (AzureIdp_Authenticate (L\<lparr>Getenv := g\<rparr>) (Some az') r fx)
                  = Done (case SignedString L issued [] of
                            Inl err \<Rightarrow>
                              Inl (''Failed to issue JWT token with '' @ sprint_claims L issued
                                     @ '' claims: '' @ err)
                          | Inr validToken \<Rightarrow>
                              Inr (\<lparr>ID = Email claims,
                                    Metadata = [''name'' \<mapsto> Name claims, ''email'' \<mapsto> Email claims,
                                                ''roles'' \<mapsto> Join (Roles claims) '' '']\<rparr>,
                                   validToken))" for g
    by (simp add: Authenticate_Getenv)
  with valid secret show ?thesis by blast
qed

theorem C9_env_secret_never_read_witness:
  "TokenSecret (Jwt m0) = []
   \<and> Getenv lib0 ''JWT_TOKEN_SECRET'' = ''s3cret''
   \<and> map_option (Azure \<circ> fst \<circ> snd) (returned (AuthProvider_Validate lib0 [] m0))
       = Some (Some az0_ready)
   \<and> TokenSecret (Jwt az0_ready) = []
   \<and> SignedString lib0 claims0 [] = Inr ''hs512::jdoe@example.com''
   \<and> fst (AzureIdp_Authenticate lib0 (Some az0_ready) req0 fx0)
       = Done (Inr (user0, ''hs512::jdoe@example.com''))"
proof -
  have 1: "TokenSecret (Jwt m0) = []" by (simp add: m0_def)
  have 2: "Getenv lib0 ''JWT_TOKEN_SECRET'' \<noteq> []" by (simp add: lib0_def)
  have 3: "AuthURLPath m0 \<noteq> []" by (simp add: m0_def)
  have 4: "Azure m0 = Some az0" by (simp add: m0_def)
  have 5: "AzureIdp_Validate lib0 []
           (az0\<lparr>Jwt := \<lparr>TokenName = (if TokenName (Jwt m0) = [] then ''JWT_TOKEN''
                                     else TokenName (Jwt m0)),
                        TokenSecret = [],
                        TokenIssuer = (if TokenIssuer (Jwt m0) = [] then ''localhost''
                                       else TokenIssuer (Jwt m0))\<rparr>\<rparr>)
           = Done (None, az0_ready, store0_validated)"
    using eval_Validate_az0_Jwt [of jwt0_validated]
    by (simp add: m0_def jwt0_validated_def az0_ready_def)
  have 6: "UserInterface_validate lib0 (case UI m0 of None \<Rightarrow> UserInterface_zero | Some ui \<Rightarrow> ui)
           = (None, ui0_validated)"
    using eval_UserInterface_validate by (simp add: m0_def)
  have 7: "Header_Get req0 ''Content-Type'' = ''application/x-www-form-urlencoded''"
    by (simp add: Header_Get_def req0_def)
  have 8: "FormValue req0 ''SAMLResponse'' \<noteq> []"
    by (simp add: FormValue_def req0_def)
  have 9: "DecodeString lib0 (FormValue req0 ''SAMLResponse'') = Inr ''<Response/>''"
    by (simp add: FormValue_def req0_def lib0_def)
  have 10: "ServiceProviders az0_ready = [sp1] @ sp2 # []"
    by (simp add: az0_ready_def az0_validated_def)
  have 11: "\<forall>p\<in>set [sp1]. isl (ParseXMLResponse lib0 p ''<Response/>'' [[]])"
    by (simp add: lib0_def sp1_def)
  have 12: "ParseXMLResponse lib0 sp2 ''<Response/>'' [[]] = Inr assertion0"
    by (simp add: lib0_def sp2_def)
  have 13: "claims0\<lparr>Issuer := []\<rparr>
              = fst (Authenticate_attributes lib0 assertion0
                       (Authenticate_newClaims lib0 (fx0\<lparr>parse_calls := parse_calls fx0 @ [sp1] @ [sp2]\<rparr>)))"
    using eval_claims0 by (simp add: fx0_def)
  have 14: "Email (claims0\<lparr>Issuer := []\<rparr>) \<noteq> []" by (simp add: claims0_def)
  have 15: "Name (claims0\<lparr>Issuer := []\<rparr>) \<noteq> []" by (simp add: claims0_def)
  have 16: "claims0 = (if TokenIssuer (Jwt az0_ready) \<noteq> []
                   then claims0\<lparr>Issuer := [], Issuer := TokenIssuer (Jwt az0_ready)\<rparr>
                   else claims0\<lparr>Issuer := []\<rparr>)"
    by (simp add: az0_ready_def jwt0_validated_def claims0_def)
  have s: "SignedString lib0 claims0 [] = Inr ''hs512::jdoe@example.com''"
    by (simp add: lib0_def claims0_def)
  have u: "\<lparr>ID = Email (claims0\<lparr>Issuer := []\<rparr>),
            Metadata = [''name'' \<mapsto> Name (claims0\<lparr>Issuer := []\<rparr>),
                        ''email'' \<mapsto> Email (claims0\<lparr>Issuer := []\<rparr>),
                        ''roles'' \<mapsto> Join (Roles (claims0\<lparr>Issuer := []\<rparr>)) '' '']\<rparr> = user0"
    by (simp add: claims0_def user0_def)
  have e: "lib0\<lparr>Getenv := Getenv lib0\<rparr> = lib0" by simp
  have g: "Getenv lib0 ''JWT_TOKEN_SECRET'' = ''s3cret''" by (simp add: lib0_def)
  note C9 = C9_env_secret_never_read [OF 1 2 3 4 5 6 7 8 9 10 11 12 13 14 15 16]
  have v: "map_option (Azure \<circ> fst \<circ> snd) (returned (AuthProvider_Validate lib0 [] m0))
             = Some (Some az0_ready)"
    using C9 [THEN conjunct1] by (auto simp: returned_def)
  have k: "TokenSecret (Jwt az0_ready) = []"
    using C9 [THEN conjunct2, THEN conjunct1] .
  have t: "fst (AzureIdp_Authenticate lib0 (Some az0_ready) req0 fx0)
             = Done (Inr (user0, ''hs512::jdoe@example.com''))"
    using C9 [THEN conjunct2, THEN conjunct2, rule_format, of "Getenv lib0"]
    by (simp only: e s u sum.case)
  from 1 g v k s t show ?thesis by blast
qed

text \<open>
  The example request against the validated example configuration, with any signer: the
  second binding accepts the response, the claims are complete, and the signer is called
  with these claims and the empty key; what it returns decides the result.
\<close>

lemma eval_Authenticate_az0_ready:
  "fst (AzureIdp_Authenticate (lib0\<lparr>SignedString := sign\<rparr>) (Some az0_ready) req0 fx0)
     = Done (case sign claims0 [] of
               Inl err \<Rightarrow> Inl (''Failed to issue JWT token with {John Doe jdoe@example.com} claims: '' @ err)
             | Inr validToken \<Rightarrow> Inr (user0, validToken))"
  by (simp add: AzureIdp_Authenticate_def Authenticate_assertion_def Authenticate_attributes_def
        Authenticate_newClaims_def Authenticate_attrEntry_def Header_Get_def FormValue_def
        req0_def lib0_def az0_ready_def az0_validated_def az0_def jwt0_validated_def
        sp1_def sp2_def assertion0_def fx0_def user0_def claims0_def HasSuffix_def Atoi_def
        isDigit_def digitVal_def Let_def UserClaims_zero_def Time_Add_def Time_Unix_def
        Second_def split: sum.splits)

text \<open>
  Claim C3 says that token issuance fails when the configured token secret is empty. On
  the example configuration (empty secret, \<open>JWT_TOKEN_SECRET\<close> set in the
  environment) validation succeeds and leaves the secret empty, and the example request is
  authenticated with a token signed with the empty key: \<open>Authenticate\<close> itself never
  looks at the secret, it fails at this step only if the signer does.
\<close>

theorem C3_empty_secret_signs:
  "TokenSecret (Jwt m0) = []
   \<and> AuthProvider_Validate lib0 [] m0 = Done (None, m0_validated, store0_validated)
   \<and> Azure m0_validated = Some az0_ready
   \<and> TokenSecret (Jwt az0_ready) = []
   \<and> fst (AzureIdp_Authenticate lib0 (Some az0_ready) req0 fx0)
       = Done (Inr (user0, ''hs512::jdoe@example.com''))
   \<and> fst (AzureIdp_Authenticate (lib0\<lparr>SignedString := sign\<rparr>) (Some az0_ready) req0 fx0)
       = Done (case sign claims0 [] of
                 Inl err \<Rightarrow> Inl (''Failed to issue JWT token with {John Doe jdoe@example.com} claims: '' @ err)
               | Inr validToken \<Rightarrow> Inr (user0, validToken))"
proof -
  have 1: "TokenSecret (Jwt m0) = []" by (simp add: m0_def)
  have 2: "Azure m0_validated = Some az0_ready" by (simp add: m0_validated_def)
  have 3: "TokenSecret (Jwt az0_ready) = []" by (simp add: az0_ready_def jwt0_validated_def)
  have 4: "lib0\<lparr>SignedString := SignedString lib0\<rparr> = lib0" by simp
  have 5: "SignedString lib0 claims0 [] = Inr ''hs512::jdoe@example.com''"
    by (simp add: lib0_def claims0_def)
  have 6: "fst (AzureIdp_Authenticate lib0 (Some az0_ready) req0 fx0)
       = Done (Inr (user0, ''hs512::jdoe@example.com''))"
    using eval_Authenticate_az0_ready [of "SignedString lib0"] 5 by (simp only: 4 sum.case)
  from 1 eval_Validate_m0 2 3 6 eval_Authenticate_az0_ready show ?thesis by blast
qed

end
